theory Spec2Isabelle
  imports Main
begin

section \<open>Python values, strings and exceptions\<close>

text \<open>
  Python strings are modelled as \<^typ>\<open>string\<close>, read as sequences of Latin-1 code points.
  The helpers below follow the Python built-ins they are named after.
\<close>

definition lower_char :: "char \<Rightarrow> char" where
  "lower_char c =
     (let n = of_char c :: nat in
      if (65 \<le> n \<and> n \<le> 90) \<or> (192 \<le> n \<and> n \<le> 222 \<and> n \<noteq> 215)
      then char_of (n + 32) else c)"

definition py_lower :: "string \<Rightarrow> string" where
  "py_lower s = map lower_char s"

definition is_space :: "char \<Rightarrow> bool" where
  "is_space c =
     (let n = of_char c :: nat in
      (9 \<le> n \<and> n \<le> 13) \<or> (28 \<le> n \<and> n \<le> 32) \<or> n = 133 \<or> n = 160)"

definition py_strip :: "string \<Rightarrow> string" where
  "py_strip s = rev (dropWhile is_space (rev (dropWhile is_space s)))"

definition startswith :: "string \<Rightarrow> string \<Rightarrow> bool" where
  "startswith s p = (take (length p) s = p)"

definition endswith :: "string \<Rightarrow> string \<Rightarrow> bool" where
  "endswith s p = (length p \<le> length s \<and> drop (length s - length p) s = p)"

fun contains :: "string \<Rightarrow> string \<Rightarrow> bool" where
  "contains sub [] = (sub = [])"
| "contains sub (c # cs) = (startswith (c # cs) sub \<or> contains sub cs)"

text \<open>The text between single quotes, as in \<open>f"'{name}'"\<close>.\<close>

definition quote :: "string \<Rightarrow> string" where
  "quote s = [CHR 0x27] @ s @ [CHR 0x27]"

definition py_replace_space :: "string \<Rightarrow> string" where
  "py_replace_space s = map (\<lambda>c. if c = CHR '' '' then CHR ''+'' else c) s"

text \<open>\<open>url.split("/")[-1]\<close>: the part after the last slash.\<close>

definition last_segment :: "string \<Rightarrow> string" where
  "last_segment s = rev (takeWhile (\<lambda>c. c \<noteq> CHR ''/'') (rev s))"

text \<open>\<open>os.path.join(a, b)\<close> on a POSIX system.\<close>

definition path_join :: "string \<Rightarrow> string \<Rightarrow> string" where
  "path_join a b =
     (if startswith b ''/'' then b
      else if a = [] \<or> endswith a ''/'' then a @ b
      else a @ ''/'' @ b)"

text \<open>
  \<open>re.sub(r'\.pdf$', '', s, flags=re.IGNORECASE)\<close>: the dollar matches at the end of
  the string and also just before a newline that ends the string.
\<close>

definition re_sub_pdf_suffix :: "string \<Rightarrow> string" where
  "re_sub_pdf_suffix s =
     (if endswith (py_lower s) ''.pdf'' then take (length s - 4) s
      else if endswith (py_lower s) (''.pdf'' @ [CHR 0x0A]) then take (length s - 5) s @ [CHR 0x0A]
      else s)"

datatype exn =
    KeyError string
  | IndexError string
  | TypeError string
  | AttributeError string
  | ValueError string
  | ExternalError string

text \<open>\<open>str(e)\<close>; a \<open>KeyError\<close> carries the \<open>repr\<close> of the missing key.\<close>

fun str_exn :: "exn \<Rightarrow> string" where
  "str_exn (KeyError k) = k"
| "str_exn (IndexError m) = m"
| "str_exn (TypeError m) = m"
| "str_exn (AttributeError m) = m"
| "str_exn (ValueError m) = m"
| "str_exn (ExternalError m) = m"

datatype pyval = PStr string | PList "string list" | PNone

text \<open>A Result is a Python dict with string keys, kept as its list of items.\<close>

type_synonym result = "(string \<times> pyval) list"

definition dict_get :: "result \<Rightarrow> string \<Rightarrow> pyval option" where
  "dict_get r k = map_of r k"

text \<open>Truth value of an expression that is \<open>None\<close> or a dict.\<close>

fun truthy :: "result option \<Rightarrow> bool" where
  "truthy None = False"
| "truthy (Some r) = (r \<noteq> [])"

datatype json =
    JNull
  | JBool bool
  | JNum int
  | JStr string
  | JList "json list"
  | JDict "(string \<times> json) list"

record response =
  resp_text :: string
  resp_content :: string

type_synonym attrs = "(string \<times> string) list"

section \<open>The outside world\<close>

text \<open>
  Everything the program does to the outside is an event appended to a trace, at the
  moment the call is made, whether it then succeeds or raises. What the outside answers is
  given by an environment; an answer may depend on the whole history. The exceptions are
  those that \<open>except Exception\<close> catches. A \<open>print\<close> is such a call: the line is added to
  the trace, and the environment says whether writing it raises.
\<close>

datatype event =
    Print string
  | Makedirs string
  | HttpGet string
  | FileWrite string
  | ImageSave string
  | Import string
  | GoogleSearch string

type_synonym trace = "event list"

record env =
  builtin_print :: "trace \<Rightarrow> string \<Rightarrow> exn + unit"
  os_makedirs :: "trace \<Rightarrow> string \<Rightarrow> exn + unit"
  requests_get :: "trace \<Rightarrow> string \<Rightarrow> exn + response"
  copy_to_file :: "trace \<Rightarrow> string \<Rightarrow> response \<Rightarrow> exn + unit"
  image_save :: "trace \<Rightarrow> string \<Rightarrow> string \<Rightarrow> exn + unit"
  import_googlesearch :: "trace \<Rightarrow> exn + unit"
  google_search :: "trace \<Rightarrow> string \<Rightarrow> nat \<Rightarrow> string list \<times> exn option"
  response_json :: "response \<Rightarrow> exn + json"
  soup_find_ai_search :: "string \<Rightarrow> exn + attrs option"
  soup_find_all_links :: "string \<Rightarrow> exn + attrs list"
  re_search_preview :: "string \<Rightarrow> string option"
  re_sub_title :: "string \<Rightarrow> string"
  re_search_course_code :: "string \<Rightarrow> string option"
  re_search_year :: "string \<Rightarrow> string option"
  format_json :: "json \<Rightarrow> string"

text \<open>
  The fields of the environment, in the order of the record:
  \<^item> \<open>print(line)\<close>, which raises when standard output is closed, is a pipe that broke, or
    cannot encode the line;
  \<^item> \<open>os.makedirs(dir, exist_ok=True)\<close>;
  \<^item> \<open>requests.get(url, ...)\<close>;
  \<^item> \<open>open(path, 'wb')\<close> followed by \<open>shutil.copyfileobj(response.raw, f)\<close>;
  \<^item> \<open>Image.open(BytesIO(content))\<close> followed by \<open>img.save(path)\<close>;
  \<^item> \<open>from googlesearch import search\<close>;
  \<^item> \<open>search(query, num_results=n)\<close>: the URLs the generator yields and the exception, if
    any, that ends it (an exception of the call itself is one after no URL);
  \<^item> \<open>response.json()\<close>;
  \<^item> \<open>BeautifulSoup(text, 'html.parser').find('a', class_='ai-search')\<close>: the attributes
    of the tag found, if any;
  \<^item> \<open>BeautifulSoup(text, 'html.parser').find_all('a', href=True)\<close>: the attributes of
    each link;
  \<^item> group 1 of \<open>re.search(r'data-preview="(.+?\.pdf)"', text)\<close>;
  \<^item> \<open>re.sub(r'[^\w\s-]', '', title)\<close>;
  \<^item> group 1 of \<open>re.search(r'([A-Za-z]{2,4}\s?\d{3})', text)\<close>;
  \<^item> group 1 of \<open>re.search(r'(20\d{2})', text)\<close>;
  \<^item> \<open>str(x)\<close> of a parsed JSON value that is not a string.
  The calls that reach outside the process take the history; parsing and matching do not.
\<close>

text \<open>
  A computation takes the trace so far and gives either an exception or a value, together
  with the extended trace.
\<close>

type_synonym 'a comp = "trace \<Rightarrow> (exn + 'a) \<times> trace"

definition returnE :: "'a \<Rightarrow> 'a comp" where
  "returnE a tr = (Inr a, tr)"

definition raiseE :: "exn \<Rightarrow> 'a comp" where
  "raiseE e tr = (Inl e, tr)"

definition liftE :: "exn + 'a \<Rightarrow> 'a comp" where
  "liftE x tr = (x, tr)"

definition bindE :: "'a comp \<Rightarrow> ('a \<Rightarrow> 'b comp) \<Rightarrow> 'b comp" where
  "bindE m f tr = (case m tr of (Inl e, tr') \<Rightarrow> (Inl e, tr') | (Inr a, tr') \<Rightarrow> f a tr')"

text \<open>\<open>try: m  except Exception as e: h e\<close>\<close>

definition tryE :: "'a comp \<Rightarrow> (exn \<Rightarrow> 'a comp) \<Rightarrow> 'a comp" where
  "tryE m h tr = (case m tr of (Inl e, tr') \<Rightarrow> h e tr' | (Inr a, tr') \<Rightarrow> (Inr a, tr'))"

text \<open>A call to the outside: the answer is read from the history, the event is logged.\<close>

definition call :: "(trace \<Rightarrow> exn + 'a) \<Rightarrow> event \<Rightarrow> 'a comp" where
  "call f ev tr = (f tr, tr @ [ev])"

definition print_line :: "env \<Rightarrow> string \<Rightarrow> unit comp" where
  "print_line env msg = call (\<lambda>tr. builtin_print env tr msg) (Print msg)"

section \<open>Downloader.py\<close>

definition DOWNLOAD_DIR :: string where
  "DOWNLOAD_DIR = ''downloads''"

definition MAX_CONCURRENT_DOWNLOADS :: nat where
  "MAX_CONCURRENT_DOWNLOADS = 10"

definition not_pdf_result :: result where
  "not_pdf_result =
     [(''status'', PStr ''error''), (''message'', PStr ''URL doesn't point to a PDF file'')]"

definition error_result :: "exn \<Rightarrow> result" where
  "error_result e = [(''status'', PStr ''error''), (''message'', PStr (str_exn e))]"

definition download_direct_url :: "env \<Rightarrow> string \<Rightarrow> result comp" where
  "download_direct_url env url =
     (if \<not> endswith (py_lower url) ''.pdf'' then returnE not_pdf_result
      else tryE
        (let filename = path_join DOWNLOAD_DIR (last_segment url) in
         bindE (call (\<lambda>tr. requests_get env tr url) (HttpGet url)) (\<lambda>response.
         bindE (call (\<lambda>tr. copy_to_file env tr filename response) (FileWrite filename)) (\<lambda>_.
         returnE [(''status'', PStr ''success''),
                  (''message'', PStr ''Downloaded PDF from URL''),
                  (''file_path'', PStr filename)])))
        (\<lambda>e. returnE (error_result e)))"

subsection \<open>Operations on parsed JSON\<close>

fun json_type_name :: "json \<Rightarrow> string" where
  "json_type_name JNull = ''NoneType''"
| "json_type_name (JBool _) = ''bool''"
| "json_type_name (JNum _) = ''int''"
| "json_type_name (JStr _) = ''str''"
| "json_type_name (JList _) = ''list''"
| "json_type_name (JDict _) = ''dict''"

text \<open>\<open>x.get(key, default)\<close>\<close>

fun json_get :: "json \<Rightarrow> string \<Rightarrow> json \<Rightarrow> exn + json" where
  "json_get (JDict kvs) key dflt = Inr (case map_of kvs key of Some v \<Rightarrow> v | None \<Rightarrow> dflt)"
| "json_get j key dflt =
     Inl (AttributeError (quote (json_type_name j) @ '' object has no attribute '' @ quote ''get''))"

text \<open>The values a \<open>for\<close> loop over \<open>x\<close> sees.\<close>

fun json_iter :: "json \<Rightarrow> exn + json list" where
  "json_iter (JList xs) = Inr xs"
| "json_iter (JDict kvs) = Inr (map (\<lambda>kv. JStr (fst kv)) kvs)"
| "json_iter (JStr s) = Inr (map (\<lambda>c. JStr [c]) s)"
| "json_iter j = Inl (TypeError (quote (json_type_name j) @ '' object is not iterable''))"

text \<open>\<open>key in x\<close>\<close>

fun json_contains :: "string \<Rightarrow> json \<Rightarrow> exn + bool" where
  "json_contains key (JDict kvs) = Inr (key \<in> set (map fst kvs))"
| "json_contains key (JList xs) = Inr (JStr key \<in> set xs)"
| "json_contains key (JStr s) = Inr (contains key s)"
| "json_contains key j =
     Inl (TypeError (''argument of type '' @ quote (json_type_name j) @ '' is not iterable''))"

text \<open>\<open>x[key]\<close> for a string key, with the messages of CPython 3.11.\<close>

fun json_item :: "json \<Rightarrow> string \<Rightarrow> exn + json" where
  "json_item (JDict kvs) key =
     (case map_of kvs key of Some v \<Rightarrow> Inr v | None \<Rightarrow> Inl (KeyError (quote key)))"
| "json_item (JList _) key = Inl (TypeError ''list indices must be integers or slices, not str'')"
| "json_item (JStr _) key =
     Inl (TypeError (''string indices must be integers, not '' @ quote ''str''))"
| "json_item j key = Inl (TypeError (quote (json_type_name j) @ '' object is not subscriptable''))"

text \<open>\<open>x[0]\<close>\<close>

fun json_first :: "json \<Rightarrow> exn + json" where
  "json_first (JList []) = Inl (IndexError ''list index out of range'')"
| "json_first (JList (x # _)) = Inr x"
| "json_first (JStr []) = Inl (IndexError ''string index out of range'')"
| "json_first (JStr (c # _)) = Inr (JStr [c])"
| "json_first (JDict _) = Inl (KeyError ''0'')"
| "json_first j = Inl (TypeError (quote (json_type_name j) @ '' object is not subscriptable''))"

fun json_truthy :: "json \<Rightarrow> bool" where
  "json_truthy JNull = False"
| "json_truthy (JBool b) = b"
| "json_truthy (JNum n) = (n \<noteq> 0)"
| "json_truthy (JStr s) = (s \<noteq> [])"
| "json_truthy (JList xs) = (xs \<noteq> [])"
| "json_truthy (JDict kvs) = (kvs \<noteq> [])"

text \<open>\<open>str(x)\<close>, as an f-string and \<open>requests.get\<close> apply it.\<close>

definition py_str :: "env \<Rightarrow> json \<Rightarrow> string" where
  "py_str env j = (case j of JStr s \<Rightarrow> s | _ \<Rightarrow> format_json env j)"

text \<open>\<open>tag[key]\<close> and \<open>tag.get(key, default)\<close> on a parsed HTML tag.\<close>

definition attrs_item :: "attrs \<Rightarrow> string \<Rightarrow> exn + string" where
  "attrs_item a key = (case map_of a key of Some v \<Rightarrow> Inr v | None \<Rightarrow> Inl (KeyError (quote key)))"

definition attrs_get :: "attrs \<Rightarrow> string \<Rightarrow> string \<Rightarrow> string" where
  "attrs_get a key dflt = (case map_of a key of Some v \<Rightarrow> v | None \<Rightarrow> dflt)"

text \<open>\<open>x or default\<close> for an \<open>x\<close> that is \<open>None\<close> or a string.\<close>

fun str_truthy :: "string option \<Rightarrow> bool" where
  "str_truthy None = False"
| "str_truthy (Some s) = (s \<noteq> [])"

definition or_default :: "string option \<Rightarrow> string \<Rightarrow> string" where
  "or_default x dflt = (case x of Some s \<Rightarrow> (if s \<noteq> [] then s else dflt) | None \<Rightarrow> dflt)"

subsection \<open>Fetching a PDF and its cover\<close>

definition download_cover_image :: "env \<Rightarrow> string \<Rightarrow> string option comp" where
  "download_cover_image env book_name =
     tryE
       (let search_url = ''https://www.googleapis.com/books/v1/volumes?q='' @ book_name in
        bindE (call (\<lambda>tr. requests_get env tr search_url) (HttpGet search_url)) (\<lambda>r.
        bindE (liftE (response_json env r)) (\<lambda>res.
        bindE (liftE (json_get res ''items'' (JList []))) (\<lambda>items.
        if json_truthy items then
          bindE (liftE (json_first items)) (\<lambda>item.
          bindE (liftE (json_item item ''volumeInfo'')) (\<lambda>info.
          bindE (liftE (json_item info ''imageLinks'')) (\<lambda>links.
          bindE (liftE (json_item links ''thumbnail'')) (\<lambda>thumb.
          let image_url = py_str env thumb in
          bindE (call (\<lambda>tr. requests_get env tr image_url) (HttpGet image_url)) (\<lambda>img_res.
          let cover_path = path_join DOWNLOAD_DIR (book_name @ ''_cover.jpg'') in
          bindE (call (\<lambda>tr. image_save env tr (resp_content img_res) cover_path)
                   (ImageSave cover_path)) (\<lambda>_.
          returnE (Some cover_path)))))))
        else returnE None))))
       (\<lambda>e. bindE (print_line env (''Cover image not found: '' @ str_exn e)) (\<lambda>_. returnE None))"

definition download_pdf_and_cover :: "env \<Rightarrow> string \<Rightarrow> string \<Rightarrow> result comp" where
  "download_pdf_and_cover env url title =
     tryE
       (let pdf_name = re_sub_title env title @ ''.pdf'';
            file_path = path_join DOWNLOAD_DIR pdf_name in
        bindE (call (\<lambda>tr. requests_get env tr url) (HttpGet url)) (\<lambda>r.
        bindE (call (\<lambda>tr. copy_to_file env tr file_path r) (FileWrite file_path)) (\<lambda>_.
        bindE (download_cover_image env title) (\<lambda>cover_path.
        returnE [(''status'', PStr ''success''),
                 (''message'', PStr (''Downloaded '' @ quote title)),
                 (''file_path'', PStr file_path),
                 (''cover'', (case cover_path of None \<Rightarrow> PNone | Some p \<Rightarrow> PStr p))]))))
       (\<lambda>e. returnE (error_result e))"

subsection \<open>The three lookup strategies\<close>

definition extract_pdfdrive_pdf :: "env \<Rightarrow> string \<Rightarrow> string option comp" where
  "extract_pdfdrive_pdf env book_url =
     tryE
       (bindE (call (\<lambda>tr. requests_get env tr book_url) (HttpGet book_url)) (\<lambda>res.
        case re_search_preview env (resp_text res) of
          Some g \<Rightarrow> returnE (Some g)
        | None \<Rightarrow> returnE None))
       (\<lambda>e. bindE (print_line env (''Error getting PDF URL from PDFDrive: '' @ str_exn e))
              (\<lambda>_. returnE None))"

definition try_pdfdrive_search :: "env \<Rightarrow> string \<Rightarrow> result option comp" where
  "try_pdfdrive_search env book_name =
     bindE (print_line env (''Searching PDFDrive for '' @ quote book_name @ ''...'')) (\<lambda>_.
     let search_url = ''https://www.pdfdrive.com/search?q='' @ py_replace_space book_name in
     tryE
       (bindE (call (\<lambda>tr. requests_get env tr search_url) (HttpGet search_url)) (\<lambda>res.
        bindE (liftE (soup_find_ai_search env (resp_text res))) (\<lambda>first_result.
        case first_result of
          None \<Rightarrow> returnE None
        | Some a \<Rightarrow>
            bindE (liftE (attrs_item a ''href'')) (\<lambda>href.
            let book_url = ''https://www.pdfdrive.com'' @ href;
                title = attrs_get a ''title'' book_name in
            bindE (extract_pdfdrive_pdf env book_url) (\<lambda>pdf_url.
            if str_truthy pdf_url then
              bindE (download_pdf_and_cover env (the pdf_url) title) (\<lambda>r. returnE (Some r))
            else returnE None)))))
       (\<lambda>e. bindE (print_line env (''PDFDrive error: '' @ str_exn e)) (\<lambda>_. returnE None)))"

fun archive_docs_loop :: "env \<Rightarrow> string \<Rightarrow> json list \<Rightarrow> result option comp" where
  "archive_docs_loop env book_name [] = returnE None"
| "archive_docs_loop env book_name (doc # docs) =
     bindE (liftE (json_contains ''identifier'' doc)) (\<lambda>has_id.
     if has_id then
       bindE (liftE (json_item doc ''identifier'')) (\<lambda>ident.
       let item_url = ''https://archive.org/download/'' @ py_str env ident @ ''/''
                        @ py_str env ident @ ''.pdf'' in
       bindE (download_pdf_and_cover env item_url book_name) (\<lambda>r. returnE (Some r)))
     else archive_docs_loop env book_name docs)"

definition try_archive_search :: "env \<Rightarrow> string \<Rightarrow> result option comp" where
  "try_archive_search env book_name =
     bindE (print_line env (''Searching Archive.org for '' @ quote book_name @ ''...'')) (\<lambda>_.
     let search_url = ''https://archive.org/advancedsearch.php?q=title%3A(''
                        @ py_replace_space book_name @ '')&output=json'' in
     tryE
       (bindE (call (\<lambda>tr. requests_get env tr search_url) (HttpGet search_url)) (\<lambda>res.
        bindE (liftE (response_json env res)) (\<lambda>j.
        bindE (liftE (json_get j ''response'' (JDict []))) (\<lambda>resp.
        bindE (liftE (json_get resp ''docs'' (JList []))) (\<lambda>docs.
        bindE (liftE (json_iter docs)) (\<lambda>ds.
        archive_docs_loop env book_name ds))))))
       (\<lambda>e. bindE (print_line env (''Archive.org error: '' @ str_exn e)) (\<lambda>_. returnE None)))"

text \<open>
  The search generator yields URLs and may then raise; the loop returns at the first URL
  that ends in \<open>.pdf\<close>, so an exception after it is never seen.
\<close>

definition try_google_pdf_search :: "env \<Rightarrow> string \<Rightarrow> result option comp" where
  "try_google_pdf_search env book_name =
     bindE (print_line env (''Trying Google PDF search for '' @ quote book_name @ ''...'')) (\<lambda>_.
     bindE (call (import_googlesearch env) (Import ''googlesearch'')) (\<lambda>_.
     tryE
       (let query = book_name @ '' filetype:pdf'' in
        bindE (call (\<lambda>tr. Inr (google_search env tr query 5)) (GoogleSearch query)) (\<lambda>found.
        case find (\<lambda>url. endswith url ''.pdf'') (fst found) of
          Some url \<Rightarrow> bindE (download_pdf_and_cover env url book_name) (\<lambda>r. returnE (Some r))
        | None \<Rightarrow> (case snd found of Some e \<Rightarrow> raiseE e | None \<Rightarrow> returnE None)))
       (\<lambda>e. bindE (print_line env (''Google search error: '' @ str_exn e)) (\<lambda>_. returnE None))))"

subsection \<open>The fallback chain\<close>

definition clean_name_of :: "string \<Rightarrow> string" where
  "clean_name_of book_name = py_strip (re_sub_pdf_suffix book_name)"

definition not_found_result :: "string \<Rightarrow> result" where
  "not_found_result clean_name =
     [(''status'', PStr ''error''),
      (''message'', PStr (''Could not find PDF for '' @ quote clean_name)),
      (''alternatives'', PList
         [''https://www.pdfdrive.com/search?q='' @ py_replace_space clean_name,
          ''https://archive.org/search.php?query='' @ py_replace_space clean_name])]"

definition download_by_book_name :: "env \<Rightarrow> string \<Rightarrow> result comp" where
  "download_by_book_name env book_name =
     (let clean_name = clean_name_of book_name in
      bindE (try_pdfdrive_search env clean_name) (\<lambda>pdfdrive_result.
      if truthy pdfdrive_result then returnE (the pdfdrive_result)
      else
        bindE (try_archive_search env clean_name) (\<lambda>archive_result.
        if truthy archive_result then returnE (the archive_result)
        else
          bindE (try_google_pdf_search env clean_name) (\<lambda>google_result.
          if truthy google_result then returnE (the google_result)
          else returnE (not_found_result clean_name)))))"

subsection \<open>Past papers\<close>

text \<open>The hrefs of the links that look like downloads, made absolute.\<close>

fun collect_download_links :: "attrs list \<Rightarrow> exn + string list" where
  "collect_download_links [] = Inr []"
| "collect_download_links (link # links) =
     (case attrs_item link ''href'' of
        Inl e \<Rightarrow> Inl e
      | Inr h \<Rightarrow>
          (let href = py_lower h in
           case collect_download_links links of
             Inl e \<Rightarrow> Inl e
           | Inr rest \<Rightarrow>
               if endswith href ''.pdf'' \<or> contains ''download'' href then
                 Inr ((if startswith href ''http'' then href
                       else ''https://opac.mzuni.ac.mw'' @ href) # rest)
               else Inr rest))"

definition try_mzuni_opac_search ::
  "env \<Rightarrow> string \<Rightarrow> string option \<Rightarrow> string option \<Rightarrow> result option comp" where
  "try_mzuni_opac_search env query course_code year =
     tryE
       (let search_url = ''https://opac.mzuni.ac.mw/cgi-bin/koha/opac-search.pl?q=''
                           @ py_replace_space query in
        bindE (call (\<lambda>tr. requests_get env tr search_url) (HttpGet search_url)) (\<lambda>response.
        bindE (liftE (soup_find_all_links env (resp_text response))) (\<lambda>links.
        bindE (liftE (collect_download_links links)) (\<lambda>download_links.
        case download_links of
          [] \<Rightarrow> returnE None
        | pdf_url # _ \<Rightarrow>
            (let filename =
                   (if str_truthy course_code \<or> str_truthy year
                    then or_default course_code ''paper'' @ ''_''
                           @ or_default year ''unknown'' @ ''.pdf''
                    else ''past_paper.pdf'');
                 file_path = path_join DOWNLOAD_DIR filename in
             bindE (call (\<lambda>tr. requests_get env tr pdf_url) (HttpGet pdf_url)) (\<lambda>r.
             bindE (call (\<lambda>tr. copy_to_file env tr file_path r) (FileWrite file_path)) (\<lambda>_.
             returnE (Some [(''status'', PStr ''success''),
                            (''message'', PStr (''Downloaded past paper: '' @ query)),
                            (''file_path'', PStr file_path),
                            (''source'', PStr ''MZUNI Library'')]))))))))
       (\<lambda>e. bindE (print_line env (''MZUNI OPAC search error: '' @ str_exn e))
              (\<lambda>_. returnE None))"

definition past_paper_info :: "string \<Rightarrow> result" where
  "past_paper_info identifier =
     [(''status'', PStr ''info''),
      (''message'', PStr ''No direct download found. Try these resources:''),
      (''resources'', PList
         [''https://opac.mzuni.ac.mw/cgi-bin/koha/opac-search.pl?q=''
            @ py_replace_space identifier,
          ''https://www.academia.edu/'',
          ''https://www.researchgate.net/'']),
      (''tips'', PList
         [''Try searching with exact course code and year (e.g. 'CS 101 2020')'',
          ''Some resources may require institutional login''])]"

definition try_past_paper_download :: "env \<Rightarrow> string \<Rightarrow> result comp" where
  "try_past_paper_download env identifier =
     bindE (print_line env (''Searching academic sources for '' @ quote identifier @ ''...'')) (\<lambda>_.
     tryE
       (let course_code = re_search_course_code env identifier;
            year = re_search_year env identifier in
        bindE (try_mzuni_opac_search env identifier course_code year) (\<lambda>mzuni_result.
        if truthy mzuni_result
           \<and> dict_get (the mzuni_result) ''status'' = Some (PStr ''success'')
        then returnE (the mzuni_result)
        else returnE (past_paper_info identifier)))
       (\<lambda>e. returnE [(''status'', PStr ''error''),
                      (''message'', PStr (''Search error: '' @ str_exn e))]))"

subsection \<open>The entry point and the batch dispatcher\<close>

definition download_pdf :: "env \<Rightarrow> string \<Rightarrow> result comp" where
  "download_pdf env identifier =
     bindE (call (\<lambda>tr. os_makedirs env tr DOWNLOAD_DIR) (Makedirs DOWNLOAD_DIR)) (\<lambda>_.
     let identifier = py_strip identifier in
     if startswith (py_lower identifier) ''http'' then download_direct_url env identifier
     else if contains ''past paper'' (py_lower identifier)
             \<or> contains ''exam paper'' (py_lower identifier)
       then try_past_paper_download env identifier
     else download_by_book_name env identifier)"

text \<open>
  The pool runs one unit per identifier. A unit is taken to see only its own events after
  the history at submission; what the schedule decides is the order in which the futures
  complete: \<open>finished i\<close> is the time at which the future submitted as number \<open>i\<close> is
  done, and \<open>as_completed\<close> yields the futures by that time.
\<close>

definition as_completed :: "(nat \<Rightarrow> nat) \<Rightarrow> 'a list \<Rightarrow> 'a list" where
  "as_completed finished fs =
     map snd (sort_key fst (zip (map finished [0..<length fs]) fs))"

definition collect_result :: "(exn + result) \<times> string \<Rightarrow> result" where
  "collect_result fb =
     (case fb of
        (Inr data, book) \<Rightarrow> data
      | (Inl e, book) \<Rightarrow>
          [(''status'', PStr ''error''), (''message'', PStr (str_exn e)), (''book'', PStr book)])"

definition handle_multiple_downloads ::
  "env \<Rightarrow> (nat \<Rightarrow> nat) \<Rightarrow> trace \<Rightarrow> string list \<Rightarrow> result list" where
  "handle_multiple_downloads env finished tr book_list =
     (let future_to_book = map (\<lambda>book. (fst (download_pdf env book tr), book)) book_list
      in map collect_result (as_completed finished future_to_book))"

section \<open>downloads/Pdf.py\<close>

text \<open>The functions of the fallback chain as this file has them.\<close>

definition Pdf_DOWNLOAD_DIR :: string where
  "Pdf_DOWNLOAD_DIR = ''downloads''"

definition Pdf_download_direct_url :: "env \<Rightarrow> string \<Rightarrow> result comp" where
  "Pdf_download_direct_url env url =
     (if \<not> endswith (py_lower url) ''.pdf'' then returnE [(''status'', PStr ''error''),
                   (''message'', PStr ''URL doesn't point to a PDF file'')]
      else tryE
        (let filename = path_join Pdf_DOWNLOAD_DIR (last_segment url) in
         bindE (call (\<lambda>tr. requests_get env tr url) (HttpGet url)) (\<lambda>response.
         bindE (call (\<lambda>tr. copy_to_file env tr filename response) (FileWrite filename)) (\<lambda>_.
         returnE [(''status'', PStr ''success''),
                  (''message'', PStr ''Downloaded PDF from URL''),
                  (''file_path'', PStr filename)])))
        (\<lambda>e. returnE [(''status'', PStr ''error''), (''message'', PStr (str_exn e))]))"

definition Pdf_download_cover_image :: "env \<Rightarrow> string \<Rightarrow> string option comp" where
  "Pdf_download_cover_image env book_name =
     tryE
       (let search_url = ''https://www.googleapis.com/books/v1/volumes?q='' @ book_name in
        bindE (call (\<lambda>tr. requests_get env tr search_url) (HttpGet search_url)) (\<lambda>r.
        bindE (liftE (response_json env r)) (\<lambda>res.
        bindE (liftE (json_get res ''items'' (JList []))) (\<lambda>items.
        if json_truthy items then
          bindE (liftE (json_first items)) (\<lambda>item.
          bindE (liftE (json_item item ''volumeInfo'')) (\<lambda>info.
          bindE (liftE (json_item info ''imageLinks'')) (\<lambda>links.
          bindE (liftE (json_item links ''thumbnail'')) (\<lambda>thumb.
          let image_url = py_str env thumb in
          bindE (call (\<lambda>tr. requests_get env tr image_url) (HttpGet image_url)) (\<lambda>img_res.
          let cover_path = path_join Pdf_DOWNLOAD_DIR (book_name @ ''_cover.jpg'') in
          bindE (call (\<lambda>tr. image_save env tr (resp_content img_res) cover_path)
                   (ImageSave cover_path)) (\<lambda>_.
          returnE (Some cover_path)))))))
        else returnE None))))
       (\<lambda>e. bindE (print_line env (''Cover image not found: '' @ str_exn e)) (\<lambda>_. returnE None))"

definition Pdf_download_pdf_and_cover :: "env \<Rightarrow> string \<Rightarrow> string \<Rightarrow> result comp" where
  "Pdf_download_pdf_and_cover env url title =
     tryE
       (let pdf_name = re_sub_title env title @ ''.pdf'';
            file_path = path_join Pdf_DOWNLOAD_DIR pdf_name in
        bindE (call (\<lambda>tr. requests_get env tr url) (HttpGet url)) (\<lambda>r.
        bindE (call (\<lambda>tr. copy_to_file env tr file_path r) (FileWrite file_path)) (\<lambda>_.
        bindE (Pdf_download_cover_image env title) (\<lambda>cover_path.
        returnE [(''status'', PStr ''success''),
                 (''message'', PStr (''Downloaded '' @ quote title)),
                 (''file_path'', PStr file_path),
                 (''cover'', (case cover_path of None \<Rightarrow> PNone | Some p \<Rightarrow> PStr p))]))))
       (\<lambda>e. returnE [(''status'', PStr ''error''), (''message'', PStr (str_exn e))])"

definition Pdf_extract_pdfdrive_pdf :: "env \<Rightarrow> string \<Rightarrow> string option comp" where
  "Pdf_extract_pdfdrive_pdf env book_url =
     tryE
       (bindE (call (\<lambda>tr. requests_get env tr book_url) (HttpGet book_url)) (\<lambda>res.
        case re_search_preview env (resp_text res) of
          Some g \<Rightarrow> returnE (Some g)
        | None \<Rightarrow> returnE None))
       (\<lambda>e. bindE (print_line env (''Error getting PDF URL from PDFDrive: '' @ str_exn e))
              (\<lambda>_. returnE None))"

definition Pdf_try_pdfdrive_search :: "env \<Rightarrow> string \<Rightarrow> result option comp" where
  "Pdf_try_pdfdrive_search env book_name =
     bindE (print_line env (''Searching PDFDrive for '' @ quote book_name @ ''...'')) (\<lambda>_.
     let search_url = ''https://www.pdfdrive.com/search?q='' @ py_replace_space book_name in
     tryE
       (bindE (call (\<lambda>tr. requests_get env tr search_url) (HttpGet search_url)) (\<lambda>res.
        bindE (liftE (soup_find_ai_search env (resp_text res))) (\<lambda>first_result.
        case first_result of
          None \<Rightarrow> returnE None
        | Some a \<Rightarrow>
            bindE (liftE (attrs_item a ''href'')) (\<lambda>href.
            let book_url = ''https://www.pdfdrive.com'' @ href;
                title = attrs_get a ''title'' book_name in
            bindE (Pdf_extract_pdfdrive_pdf env book_url) (\<lambda>pdf_url.
            if str_truthy pdf_url then
              bindE (Pdf_download_pdf_and_cover env (the pdf_url) title) (\<lambda>r. returnE (Some r))
            else returnE None)))))
       (\<lambda>e. bindE (print_line env (''PDFDrive error: '' @ str_exn e)) (\<lambda>_. returnE None)))"

fun Pdf_archive_docs_loop :: "env \<Rightarrow> string \<Rightarrow> json list \<Rightarrow> result option comp" where
  "Pdf_archive_docs_loop env book_name [] = returnE None"
| "Pdf_archive_docs_loop env book_name (doc # docs) =
     bindE (liftE (json_contains ''identifier'' doc)) (\<lambda>has_id.
     if has_id then
       bindE (liftE (json_item doc ''identifier'')) (\<lambda>ident.
       let item_url = ''https://archive.org/download/'' @ py_str env ident @ ''/''
                        @ py_str env ident @ ''.pdf'' in
       bindE (Pdf_download_pdf_and_cover env item_url book_name) (\<lambda>r. returnE (Some r)))
     else Pdf_archive_docs_loop env book_name docs)"

definition Pdf_try_archive_search :: "env \<Rightarrow> string \<Rightarrow> result option comp" where
  "Pdf_try_archive_search env book_name =
     bindE (print_line env (''Searching Archive.org for '' @ quote book_name @ ''...'')) (\<lambda>_.
     let search_url = ''https://archive.org/advancedsearch.php?q=title%3A(''
                        @ py_replace_space book_name @ '')&output=json'' in
     tryE
       (bindE (call (\<lambda>tr. requests_get env tr search_url) (HttpGet search_url)) (\<lambda>res.
        bindE (liftE (response_json env res)) (\<lambda>j.
        bindE (liftE (json_get j ''response'' (JDict []))) (\<lambda>resp.
        bindE (liftE (json_get resp ''docs'' (JList []))) (\<lambda>docs.
        bindE (liftE (json_iter docs)) (\<lambda>ds.
        Pdf_archive_docs_loop env book_name ds))))))
       (\<lambda>e. bindE (print_line env (''Archive.org error: '' @ str_exn e)) (\<lambda>_. returnE None)))"

definition Pdf_try_google_pdf_search :: "env \<Rightarrow> string \<Rightarrow> result option comp" where
  "Pdf_try_google_pdf_search env book_name =
     bindE (print_line env (''Trying Google PDF search for '' @ quote book_name @ ''...'')) (\<lambda>_.
     bindE (call (import_googlesearch env) (Import ''googlesearch'')) (\<lambda>_.
     tryE
       (let query = book_name @ '' filetype:pdf'' in
        bindE (call (\<lambda>tr. Inr (google_search env tr query 5)) (GoogleSearch query)) (\<lambda>found.
        case find (\<lambda>url. endswith url ''.pdf'') (fst found) of
          Some url \<Rightarrow> bindE (Pdf_download_pdf_and_cover env url book_name) (\<lambda>r. returnE (Some r))
        | None \<Rightarrow> (case snd found of Some e \<Rightarrow> raiseE e | None \<Rightarrow> returnE None)))
       (\<lambda>e. bindE (print_line env (''Google search error: '' @ str_exn e)) (\<lambda>_. returnE None))))"

definition Pdf_download_by_book_name :: "env \<Rightarrow> string \<Rightarrow> result comp" where
  "Pdf_download_by_book_name env book_name =
     (let clean_name = py_strip (re_sub_pdf_suffix book_name) in
      bindE (Pdf_try_pdfdrive_search env clean_name) (\<lambda>pdfdrive_result.
      if truthy pdfdrive_result then returnE (the pdfdrive_result)
      else
        bindE (Pdf_try_archive_search env clean_name) (\<lambda>archive_result.
        if truthy archive_result then returnE (the archive_result)
        else
          bindE (Pdf_try_google_pdf_search env clean_name) (\<lambda>google_result.
          if truthy google_result then returnE (the google_result)
          else returnE
            [(''status'', PStr ''error''),
             (''message'', PStr (''Could not find PDF for '' @ quote clean_name)),
             (''alternatives'', PList
                [''https://www.pdfdrive.com/search?q='' @ py_replace_space clean_name,
                 ''https://archive.org/search.php?query='' @ py_replace_space clean_name])]))))"

section \<open>downloads/Example.py\<close>

text \<open>The functions of the fallback chain as this file has them.\<close>

definition Example_DOWNLOAD_DIR :: string where
  "Example_DOWNLOAD_DIR = ''downloads''"

definition Example_download_direct_url :: "env \<Rightarrow> string \<Rightarrow> result comp" where
  "Example_download_direct_url env url =
     (if \<not> endswith (py_lower url) ''.pdf'' then returnE [(''status'', PStr ''error''),
                   (''message'', PStr ''URL doesn't point to a PDF file'')]
      else tryE
        (let filename = path_join Example_DOWNLOAD_DIR (last_segment url) in
         bindE (call (\<lambda>tr. requests_get env tr url) (HttpGet url)) (\<lambda>response.
         bindE (call (\<lambda>tr. copy_to_file env tr filename response) (FileWrite filename)) (\<lambda>_.
         returnE [(''status'', PStr ''success''),
                  (''message'', PStr ''Downloaded PDF from URL''),
                  (''file_path'', PStr filename)])))
        (\<lambda>e. returnE [(''status'', PStr ''error''), (''message'', PStr (str_exn e))]))"

definition Example_download_cover_image :: "env \<Rightarrow> string \<Rightarrow> string option comp" where
  "Example_download_cover_image env book_name =
     tryE
       (let search_url = ''https://www.googleapis.com/books/v1/volumes?q='' @ book_name in
        bindE (call (\<lambda>tr. requests_get env tr search_url) (HttpGet search_url)) (\<lambda>r.
        bindE (liftE (response_json env r)) (\<lambda>res.
        bindE (liftE (json_get res ''items'' (JList []))) (\<lambda>items.
        if json_truthy items then
          bindE (liftE (json_first items)) (\<lambda>item.
          bindE (liftE (json_item item ''volumeInfo'')) (\<lambda>info.
          bindE (liftE (json_item info ''imageLinks'')) (\<lambda>links.
          bindE (liftE (json_item links ''thumbnail'')) (\<lambda>thumb.
          let image_url = py_str env thumb in
          bindE (call (\<lambda>tr. requests_get env tr image_url) (HttpGet image_url)) (\<lambda>img_res.
          let cover_path = path_join Example_DOWNLOAD_DIR (book_name @ ''_cover.jpg'') in
          bindE (call (\<lambda>tr. image_save env tr (resp_content img_res) cover_path)
                   (ImageSave cover_path)) (\<lambda>_.
          returnE (Some cover_path)))))))
        else returnE None))))
       (\<lambda>e. bindE (print_line env (''Cover image not found: '' @ str_exn e)) (\<lambda>_. returnE None))"

definition Example_download_pdf_and_cover :: "env \<Rightarrow> string \<Rightarrow> string \<Rightarrow> result comp" where
  "Example_download_pdf_and_cover env url title =
     tryE
       (let pdf_name = re_sub_title env title @ ''.pdf'';
            file_path = path_join Example_DOWNLOAD_DIR pdf_name in
        bindE (call (\<lambda>tr. requests_get env tr url) (HttpGet url)) (\<lambda>r.
        bindE (call (\<lambda>tr. copy_to_file env tr file_path r) (FileWrite file_path)) (\<lambda>_.
        bindE (Example_download_cover_image env title) (\<lambda>cover_path.
        returnE [(''status'', PStr ''success''),
                 (''message'', PStr (''Downloaded '' @ quote title)),
                 (''file_path'', PStr file_path),
                 (''cover'', (case cover_path of None \<Rightarrow> PNone | Some p \<Rightarrow> PStr p))]))))
       (\<lambda>e. returnE [(''status'', PStr ''error''), (''message'', PStr (str_exn e))])"

definition Example_extract_pdfdrive_pdf :: "env \<Rightarrow> string \<Rightarrow> string option comp" where
  "Example_extract_pdfdrive_pdf env book_url =
     tryE
       (bindE (call (\<lambda>tr. requests_get env tr book_url) (HttpGet book_url)) (\<lambda>res.
        case re_search_preview env (resp_text res) of
          Some g \<Rightarrow> returnE (Some g)
        | None \<Rightarrow> returnE None))
       (\<lambda>e. bindE (print_line env (''Error getting PDF URL from PDFDrive: '' @ str_exn e))
              (\<lambda>_. returnE None))"

definition Example_try_pdfdrive_search :: "env \<Rightarrow> string \<Rightarrow> result option comp" where
  "Example_try_pdfdrive_search env book_name =
     bindE (print_line env (''Searching PDFDrive for '' @ quote book_name @ ''...'')) (\<lambda>_.
     let search_url = ''https://www.pdfdrive.com/search?q='' @ py_replace_space book_name in
     tryE
       (bindE (call (\<lambda>tr. requests_get env tr search_url) (HttpGet search_url)) (\<lambda>res.
        bindE (liftE (soup_find_ai_search env (resp_text res))) (\<lambda>first_result.
        case first_result of
          None \<Rightarrow> returnE None
        | Some a \<Rightarrow>
            bindE (liftE (attrs_item a ''href'')) (\<lambda>href.
            let book_url = ''https://www.pdfdrive.com'' @ href;
                title = attrs_get a ''title'' book_name in
            bindE (Example_extract_pdfdrive_pdf env book_url) (\<lambda>pdf_url.
            if str_truthy pdf_url then
              bindE (Example_download_pdf_and_cover env (the pdf_url) title) (\<lambda>r. returnE (Some r))
            else returnE None)))))
       (\<lambda>e. bindE (print_line env (''PDFDrive error: '' @ str_exn e)) (\<lambda>_. returnE None)))"

fun Example_archive_docs_loop :: "env \<Rightarrow> string \<Rightarrow> json list \<Rightarrow> result option comp" where
  "Example_archive_docs_loop env book_name [] = returnE None"
| "Example_archive_docs_loop env book_name (doc # docs) =
     bindE (liftE (json_contains ''identifier'' doc)) (\<lambda>has_id.
     if has_id then
       bindE (liftE (json_item doc ''identifier'')) (\<lambda>ident.
       let item_url = ''https://archive.org/download/'' @ py_str env ident @ ''/''
                        @ py_str env ident @ ''.pdf'' in
       bindE (Example_download_pdf_and_cover env item_url book_name) (\<lambda>r. returnE (Some r)))
     else Example_archive_docs_loop env book_name docs)"

definition Example_try_archive_search :: "env \<Rightarrow> string \<Rightarrow> result option comp" where
  "Example_try_archive_search env book_name =
     bindE (print_line env (''Searching Archive.org for '' @ quote book_name @ ''...'')) (\<lambda>_.
     let search_url = ''https://archive.org/advancedsearch.php?q=title%3A(''
                        @ py_replace_space book_name @ '')&output=json'' in
     tryE
       (bindE (call (\<lambda>tr. requests_get env tr search_url) (HttpGet search_url)) (\<lambda>res.
        bindE (liftE (response_json env res)) (\<lambda>j.
        bindE (liftE (json_get j ''response'' (JDict []))) (\<lambda>resp.
        bindE (liftE (json_get resp ''docs'' (JList []))) (\<lambda>docs.
        bindE (liftE (json_iter docs)) (\<lambda>ds.
        Example_archive_docs_loop env book_name ds))))))
       (\<lambda>e. bindE (print_line env (''Archive.org error: '' @ str_exn e)) (\<lambda>_. returnE None)))"

definition Example_try_google_pdf_search :: "env \<Rightarrow> string \<Rightarrow> result option comp" where
  "Example_try_google_pdf_search env book_name =
     bindE (print_line env (''Trying Google PDF search for '' @ quote book_name @ ''...'')) (\<lambda>_.
     bindE (call (import_googlesearch env) (Import ''googlesearch'')) (\<lambda>_.
     tryE
       (let query = book_name @ '' filetype:pdf'' in
        bindE (call (\<lambda>tr. Inr (google_search env tr query 5)) (GoogleSearch query)) (\<lambda>found.
        case find (\<lambda>url. endswith url ''.pdf'') (fst found) of
          Some url \<Rightarrow> bindE (Example_download_pdf_and_cover env url book_name) (\<lambda>r. returnE (Some r))
        | None \<Rightarrow> (case snd found of Some e \<Rightarrow> raiseE e | None \<Rightarrow> returnE None)))
       (\<lambda>e. bindE (print_line env (''Google search error: '' @ str_exn e)) (\<lambda>_. returnE None))))"

definition Example_download_by_book_name :: "env \<Rightarrow> string \<Rightarrow> result comp" where
  "Example_download_by_book_name env book_name =
     (let clean_name = py_strip (re_sub_pdf_suffix book_name) in
      bindE (Example_try_pdfdrive_search env clean_name) (\<lambda>pdfdrive_result.
      if truthy pdfdrive_result then returnE (the pdfdrive_result)
      else
        bindE (Example_try_archive_search env clean_name) (\<lambda>archive_result.
        if truthy archive_result then returnE (the archive_result)
        else
          bindE (Example_try_google_pdf_search env clean_name) (\<lambda>google_result.
          if truthy google_result then returnE (the google_result)
          else returnE
            [(''status'', PStr ''error''),
             (''message'', PStr (''Could not find PDF for '' @ quote clean_name)),
             (''alternatives'', PList
                [''https://www.pdfdrive.com/search?q='' @ py_replace_space clean_name,
                 ''https://archive.org/search.php?query='' @ py_replace_space clean_name])]))))"

section \<open>Vocabulary of the properties\<close>

text \<open>
  Each lookup strategy announces itself with a \<open>print\<close> as its first action; the strategies
  that were invoked during a run are read off the trace from these lines, which are in the
  trace whether or not they could be written.
\<close>

datatype strategy = PDFDrive | ArchiveOrg | GooglePDF

fun strategy_of_event :: "event \<Rightarrow> strategy option" where
  "strategy_of_event (Print msg) =
     (if startswith msg ''Searching PDFDrive for '' then Some PDFDrive
      else if startswith msg ''Searching Archive.org for '' then Some ArchiveOrg
      else if startswith msg ''Trying Google PDF search for '' then Some GooglePDF
      else None)"
| "strategy_of_event _ = None"

fun attempts :: "trace \<Rightarrow> strategy list" where
  "attempts [] = []"
| "attempts (e # es) =
     (case strategy_of_event e of None \<Rightarrow> attempts es | Some s \<Rightarrow> s # attempts es)"

definition quiet :: "event \<Rightarrow> bool" where
  "quiet e \<longleftrightarrow> strategy_of_event e = None"

definition status_in :: "string set \<Rightarrow> result \<Rightarrow> bool" where
  "status_in S r \<longleftrightarrow> (\<exists>s\<in>S. dict_get r ''status'' = Some (PStr s))"

definition fetched :: "env \<Rightarrow> result \<Rightarrow> bool" where
  "fetched env r \<longleftrightarrow> (\<exists>url title tr. fst (download_pdf_and_cover env url title tr) = Inr r)"

definition strategy_post :: "env \<Rightarrow> result option \<Rightarrow> bool" where
  "strategy_post env x \<longleftrightarrow>
     (case x of None \<Rightarrow> True
      | Some r \<Rightarrow> r \<noteq> [] \<and> status_in {''success'', ''error''} r \<and> fetched env r)"

text \<open>Standard output takes every line, whatever happened before.\<close>

definition prints_ok :: "env \<Rightarrow> bool" where
  "prints_ok env \<longleftrightarrow> (\<forall>tr line. builtin_print env tr line = Inr ())"

text \<open>
  \<open>sat P Q m\<close>: from any history \<open>m\<close> only appends events that satisfy \<open>P\<close>, and a value
  it returns satisfies \<open>Q\<close>. \<open>satT\<close> adds that \<open>m\<close> does return.
\<close>

definition sat :: "(event \<Rightarrow> bool) \<Rightarrow> ('a \<Rightarrow> bool) \<Rightarrow> 'a comp \<Rightarrow> bool" where
  "sat P Q m \<longleftrightarrow>
     (\<forall>tr. \<exists>ev. snd (m tr) = tr @ ev \<and> list_all P ev \<and> (\<forall>a. fst (m tr) = Inr a \<longrightarrow> Q a))"

definition satT :: "(event \<Rightarrow> bool) \<Rightarrow> ('a \<Rightarrow> bool) \<Rightarrow> 'a comp \<Rightarrow> bool" where
  "satT P Q m \<longleftrightarrow> (\<forall>tr. \<exists>ev a. m tr = (Inr a, tr @ ev) \<and> list_all P ev \<and> Q a)"

section \<open>Sample environments\<close>

text \<open>What \<open>re.sub(r'[^\w\s-]', '', title)\<close> keeps of an ASCII title.\<close>

definition title_char :: "char \<Rightarrow> bool" where
  "title_char c =
     (let n = of_char c :: nat in
      (48 \<le> n \<and> n \<le> 57) \<or> (65 \<le> n \<and> n \<le> 90) \<or> (97 \<le> n \<and> n \<le> 122)
      \<or> n = 95 \<or> n = 45 \<or> is_space c)"

definition empty_response :: response where
  "empty_response = \<lparr> resp_text = [], resp_content = [] \<rparr>"

text \<open>No network: every request times out. The file system and standard output work.\<close>

definition env_offline :: env where
  "env_offline =
     \<lparr> builtin_print = (\<lambda>tr line. Inr ()),
       os_makedirs = (\<lambda>tr d. Inr ()),
       requests_get = (\<lambda>tr url. Inl (ExternalError ''Connection timed out'')),
       copy_to_file = (\<lambda>tr path r. Inr ()),
       image_save = (\<lambda>tr bytes path. Inr ()),
       import_googlesearch = (\<lambda>tr. Inr ()),
       google_search = (\<lambda>tr q n. ([], Some (ExternalError ''Connection timed out''))),
       response_json = (\<lambda>r. if resp_text r = ''docs''
          then Inr (JDict [(''response'',
                 JDict [(''docs'', JList [JDict [(''identifier'', JStr ''atomichabits'')]])])])
          else Inr (JDict [])),
       soup_find_ai_search = (\<lambda>html. Inr None),
       soup_find_all_links = (\<lambda>html. Inr []),
       re_search_preview = (\<lambda>html. None),
       re_sub_title = filter title_char,
       re_search_course_code = (\<lambda>s. None),
       re_search_year = (\<lambda>s. None),
       format_json = (\<lambda>j. ''None'') \<rparr>"

text \<open>The network works; PDFDrive has no hit, Archive.org lists one document.\<close>

definition env_archive :: env where
  "env_archive = env_offline
     \<lparr> requests_get := (\<lambda>tr url.
          if startswith url ''https://archive.org/advancedsearch.php''
          then Inr (empty_response \<lparr> resp_text := ''docs'' \<rparr>)
          else Inr empty_response) \<rparr>"

text \<open>As before, but fetching any \<open>.pdf\<close> URL times out.\<close>

definition env_fetch_fails :: env where
  "env_fetch_fails = env_offline
     \<lparr> requests_get := (\<lambda>tr url.
          if endswith url ''.pdf'' then Inl (ExternalError ''Read timed out'')
          else if startswith url ''https://archive.org/advancedsearch.php''
          then Inr (empty_response \<lparr> resp_text := ''docs'' \<rparr>)
          else Inr empty_response) \<rparr>"

text \<open>PDFDrive has a hit whose page carries a preview link.\<close>

definition env_pdfdrive :: env where
  "env_pdfdrive = env_archive
     \<lparr> soup_find_ai_search := (\<lambda>html. Inr (Some [(''href'', ''/atomic-habits-e1.html''),
                                                   (''title'', ''Atomic Habits'')])),
       re_search_preview := (\<lambda>html. Some ''https://www.pdfdrive.com/download.pdf'') \<rparr>"

text \<open>Only the web search finds a PDF, on a host that answers.\<close>

definition env_google :: env where
  "env_google = env_offline
     \<lparr> requests_get := (\<lambda>tr url.
          if startswith url ''https://example.org/'' then Inr empty_response
          else Inl (ExternalError ''Connection timed out'')),
       google_search := (\<lambda>tr q n. ([''https://example.org/atomic-habits.pdf''], None)) \<rparr>"

text \<open>The working directory is not writable.\<close>

definition env_readonly :: env where
  "env_readonly = env_offline
     \<lparr> os_makedirs := (\<lambda>tr d. Inl (ExternalError ''[Errno 13] Permission denied'')) \<rparr>"

text \<open>The \<open>googlesearch\<close> package is not installed.\<close>

definition env_no_googlesearch :: env where
  "env_no_googlesearch = env_offline
     \<lparr> import_googlesearch := (\<lambda>tr. Inl (ExternalError ''No module named googlesearch'')) \<rparr>"

text \<open>Standard output is closed.\<close>

definition env_stdout_closed :: env where
  "env_stdout_closed = env_offline
     \<lparr> builtin_print := (\<lambda>tr line. Inl (ValueError ''I/O operation on closed file.'')) \<rparr>"

text \<open>Standard output is a pipe whose reader goes away after the first line.\<close>

definition is_print :: "event \<Rightarrow> bool" where
  "is_print e = (case e of Print _ \<Rightarrow> True | _ \<Rightarrow> False)"

definition env_broken_pipe :: env where
  "env_broken_pipe = env_offline
     \<lparr> builtin_print := (\<lambda>tr line.
          if list_ex is_print tr then Inl (ExternalError ''[Errno 32] Broken pipe'')
          else Inr ()) \<rparr>"

text \<open>
  Every host answers, but not with what the strategies look for: the first PDFDrive hit has
  no \<open>href\<close>, the body that Archive.org sends is not JSON, and the web search yields a page
  that is not a PDF and is then refused.
\<close>

definition env_malformed :: env where
  "env_malformed = env_offline
     \<lparr> requests_get := (\<lambda>tr url. Inr empty_response),
       google_search := (\<lambda>tr q n. ([''https://example.org/atomic-habits.html''],
                          Some (ExternalError ''429 Client Error: Too Many Requests''))),
       response_json := (\<lambda>r. Inl (ExternalError ''Expecting value: line 1 column 1 (char 0)'')),
       soup_find_ai_search := (\<lambda>html. Inr (Some [(''title'', ''Atomic Habits'')])) \<rparr>"

text \<open>
  The PDFDrive search page cannot be parsed; Archive.org answers with a JSON list where an
  object is expected.
\<close>

definition env_unparsable :: env where
  "env_unparsable = env_offline
     \<lparr> requests_get := (\<lambda>tr url. Inr empty_response),
       response_json := (\<lambda>r. Inr (JList [])),
       soup_find_ai_search := (\<lambda>html.
          Inl (ExternalError ''maximum recursion depth exceeded while calling a Python object'')) \<rparr>"

text \<open>
  PDFDrive has a hit, but the page of the book times out; the documents that Archive.org
  lists have no identifier, and the second is not an object.
\<close>

definition env_book_page_down :: env where
  "env_book_page_down = env_offline
     \<lparr> requests_get := (\<lambda>tr url.
          if endswith url ''.html'' then Inl (ExternalError ''Read timed out'')
          else Inr empty_response),
       response_json := (\<lambda>r. Inr (JDict [(''response'',
          JDict [(''docs'', JList [JDict [(''title'', JStr ''Atomic Habits'')], JNull])])])),
       soup_find_ai_search := (\<lambda>html. Inr (Some [(''href'', ''/atomic-habits-e1.html''),
                                                   (''title'', ''Atomic Habits'')])) \<rparr>"

text \<open>
  PDFDrive has a hit whose page carries no preview link; Archive.org lists one document
  without identifier; the web search finds nothing.
\<close>

definition env_no_preview :: env where
  "env_no_preview = env_offline
     \<lparr> requests_get := (\<lambda>tr url. Inr empty_response),
       google_search := (\<lambda>tr q n. ([], None)),
       response_json := (\<lambda>r. Inr (JDict [(''response'',
          JDict [(''docs'', JList [JDict [(''title'', JStr ''Atomic Habits'')]])])])),
       soup_find_ai_search := (\<lambda>html. Inr (Some [(''href'', ''/atomic-habits-e1.html''),
                                                   (''title'', ''Atomic Habits'')])) \<rparr>"

text \<open>The Result of a download of ``Atomic Habits'' for which no cover was found.\<close>

definition atomic_habits_downloaded :: result where
  "atomic_habits_downloaded =
     [(''status'', PStr ''success''),
      (''message'', PStr (''Downloaded '' @ quote ''Atomic Habits'')),
      (''file_path'', PStr ''downloads/Atomic Habits.pdf''),
      (''cover'', PNone)]"

section \<open>Rules for computations\<close>

lemma satT_sat: "satT P Q m \<Longrightarrow> sat P Q m"
  unfolding sat_def satT_def by (metis fst_conv snd_conv Inr_inject)

lemma sat_returnE: "Q a \<Longrightarrow> sat P Q (returnE a)"
  by (simp add: sat_def returnE_def)

lemma satT_returnE: "Q a \<Longrightarrow> satT P Q (returnE a)"
  by (simp add: satT_def returnE_def)

lemma sat_raiseE: "sat P Q (raiseE e)"
  by (simp add: sat_def raiseE_def)

lemma sat_liftE: "(\<And>a. x = Inr a \<Longrightarrow> Q a) \<Longrightarrow> sat P Q (liftE x)"
  by (simp add: sat_def liftE_def)

lemma sat_call: "P ev \<Longrightarrow> (\<And>tr a. f tr = Inr a \<Longrightarrow> Q a) \<Longrightarrow> sat P Q (call f ev)"
  by (simp add: sat_def call_def)

lemma sat_print_line: "P (Print msg) \<Longrightarrow> Q () \<Longrightarrow> sat P Q (print_line env msg)"
  by (simp add: sat_def print_line_def call_def)

lemma satT_print_line:
  "prints_ok env \<Longrightarrow> P (Print msg) \<Longrightarrow> Q () \<Longrightarrow> satT P Q (print_line env msg)"
  by (simp add: satT_def print_line_def call_def prints_ok_def)

lemma sat_bindE:
  assumes m: "sat P R m" and f: "\<And>a. R a \<Longrightarrow> sat P Q (f a)"
  shows "sat P Q (bindE m f)"
  unfolding sat_def
proof
  fix tr
  from m obtain ev where ev: "snd (m tr) = tr @ ev" "list_all P ev"
    and R: "\<forall>a. fst (m tr) = Inr a \<longrightarrow> R a"
    unfolding sat_def by blast
  show "\<exists>ev. snd (bindE m f tr) = tr @ ev \<and> list_all P ev \<and> (\<forall>a. fst (bindE m f tr) = Inr a \<longrightarrow> Q a)"
  proof (cases "fst (m tr)")
    case (Inl e)
    then have "bindE m f tr = (Inl e, tr @ ev)"
      using ev(1) by (cases "m tr") (simp add: bindE_def)
    then show ?thesis using ev(2) by simp
  next
    case (Inr a)
    then have eq: "bindE m f tr = f a (tr @ ev)"
      using ev(1) by (cases "m tr") (simp add: bindE_def)
    from Inr R have "R a" by simp
    from f [OF this] obtain ev' where ev': "snd (f a (tr @ ev)) = (tr @ ev) @ ev'" "list_all P ev'"
      and Q: "\<forall>b. fst (f a (tr @ ev)) = Inr b \<longrightarrow> Q b"
      unfolding sat_def by blast
    show ?thesis
      using eq ev' Q ev(2) by (intro exI [of _ "ev @ ev'"]) simp
  qed
qed

lemma satT_bindE:
  assumes m: "satT P R m" and f: "\<And>a. R a \<Longrightarrow> satT P Q (f a)"
  shows "satT P Q (bindE m f)"
  unfolding satT_def
proof
  fix tr
  from m obtain ev a where ev: "m tr = (Inr a, tr @ ev)" "list_all P ev" "R a"
    unfolding satT_def by blast
  from f [OF ev(3)] obtain ev' b where ev': "f a (tr @ ev) = (Inr b, (tr @ ev) @ ev')" "list_all P ev'" "Q b"
    unfolding satT_def by blast
  show "\<exists>ev a. bindE m f tr = (Inr a, tr @ ev) \<and> list_all P ev \<and> Q a"
    using ev ev' by (intro exI [of _ "ev @ ev'"] exI [of _ b]) (simp add: bindE_def)
qed

lemma satT_tryE:
  assumes m: "sat P Q m" and h: "\<And>e. satT P Q (h e)"
  shows "satT P Q (tryE m h)"
  unfolding satT_def
proof
  fix tr
  from m obtain ev where ev: "snd (m tr) = tr @ ev" "list_all P ev"
    and Q: "\<forall>a. fst (m tr) = Inr a \<longrightarrow> Q a"
    unfolding sat_def by blast
  show "\<exists>ev a. tryE m h tr = (Inr a, tr @ ev) \<and> list_all P ev \<and> Q a"
  proof (cases "fst (m tr)")
    case (Inr a)
    then have "tryE m h tr = (Inr a, tr @ ev)"
      using ev(1) by (cases "m tr") (simp add: tryE_def)
    then show ?thesis using ev(2) Q Inr by simp
  next
    case (Inl e)
    then have eq: "tryE m h tr = h e (tr @ ev)"
      using ev(1) by (cases "m tr") (simp add: tryE_def)
    from h [of e] obtain ev' b where ev': "h e (tr @ ev) = (Inr b, (tr @ ev) @ ev')" "list_all P ev'" "Q b"
      unfolding satT_def by blast
    show ?thesis
      using eq ev' ev(2) by (intro exI [of _ "ev @ ev'"] exI [of _ b]) simp
  qed
qed

lemma sat_weaken: "sat P Q m \<Longrightarrow> (\<And>e. P e \<Longrightarrow> P' e) \<Longrightarrow> (\<And>a. Q a \<Longrightarrow> Q' a) \<Longrightarrow> sat P' Q' m"
  unfolding sat_def by (metis (mono_tags, lifting) list_all_iff)

lemma satT_weaken: "satT P Q m \<Longrightarrow> (\<And>e. P e \<Longrightarrow> P' e) \<Longrightarrow> (\<And>a. Q a \<Longrightarrow> Q' a) \<Longrightarrow> satT P' Q' m"
  unfolding satT_def by (metis (mono_tags, lifting) list_all_iff)

lemma sat_tryE:
  assumes m: "sat P Q m" and h: "\<And>e. sat P Q (h e)"
  shows "sat P Q (tryE m h)"
  unfolding sat_def
proof
  fix tr
  from m obtain ev where ev: "snd (m tr) = tr @ ev" "list_all P ev"
    and Q: "\<forall>a. fst (m tr) = Inr a \<longrightarrow> Q a"
    unfolding sat_def by blast
  show "\<exists>ev. snd (tryE m h tr) = tr @ ev \<and> list_all P ev \<and> (\<forall>a. fst (tryE m h tr) = Inr a \<longrightarrow> Q a)"
  proof (cases "fst (m tr)")
    case (Inr a)
    then have "tryE m h tr = (Inr a, tr @ ev)"
      using ev(1) by (cases "m tr") (simp add: tryE_def)
    then show ?thesis using ev(2) Q Inr by simp
  next
    case (Inl e)
    then have eq: "tryE m h tr = h e (tr @ ev)"
      using ev(1) by (cases "m tr") (simp add: tryE_def)
    from h [of e] obtain ev' where ev': "snd (h e (tr @ ev)) = (tr @ ev) @ ev'" "list_all P ev'"
      and Q': "\<forall>b. fst (h e (tr @ ev)) = Inr b \<longrightarrow> Q b"
      unfolding sat_def by blast
    show ?thesis
      using eq ev' Q' ev(2) by (intro exI [of _ "ev @ ev'"]) simp
  qed
qed

lemma sat_bindE_any:
  "sat P (\<lambda>_. True) m \<Longrightarrow> (\<And>a. sat P Q (f a)) \<Longrightarrow> sat P Q (bindE m f)"
  by (rule sat_bindE)

lemma sat_call_any: "P ev \<Longrightarrow> sat P (\<lambda>_. True) (call f ev)"
  by (rule sat_call) simp_all

lemma sat_liftE_any: "sat P (\<lambda>_. True) (liftE x)"
  by (rule sat_liftE) simp

lemma startswith_simps:
  "startswith s [] = True"
  "startswith [] (d # p) = False"
  "startswith (c # s) (d # p) = (c = d \<and> startswith s p)"
  by (auto simp: startswith_def)

lemmas sat_rules =
  sat_bindE_any sat_call_any sat_liftE_any sat_returnE sat_raiseE sat_tryE sat_print_line

lemma cover_sat: "sat quiet (\<lambda>_. True) (download_cover_image env b)"
  unfolding download_cover_image_def Let_def
  by (auto intro!: sat_rules simp: quiet_def startswith_simps)

lemma print_line_raises:
  "builtin_print env tr msg = Inl e \<Longrightarrow> bindE (print_line env msg) f tr = (Inl e, tr @ [Print msg])"
  by (simp add: bindE_def print_line_def call_def)

lemma print_line_returns:
  "builtin_print env tr msg = Inr u \<Longrightarrow> bindE (print_line env msg) f tr = f () (tr @ [Print msg])"
  by (simp add: bindE_def print_line_def call_def)

lemma print_then_satT:
  assumes "prints_ok env" and "satT P Q (f ())"
  shows "\<exists>ev r. bindE (print_line env msg) f tr = (Inr r, tr @ Print msg # ev)
           \<and> list_all P ev \<and> Q r"
proof -
  from assms(2) obtain ev r where "f () (tr @ [Print msg]) = (Inr r, (tr @ [Print msg]) @ ev)"
    "list_all P ev" "Q r"
    unfolding satT_def by blast
  moreover have "builtin_print env tr msg = Inr ()"
    using assms(1) by (simp add: prints_ok_def)
  ultimately show ?thesis
    by (intro exI [of _ ev] exI [of _ r]) (simp add: print_line_returns)
qed

lemma print_then_sat:
  assumes "sat P Q (f ())"
  shows "\<exists>ev. snd (bindE (print_line env msg) f tr) = tr @ Print msg # ev \<and> list_all P ev
        \<and> (\<forall>r. fst (bindE (print_line env msg) f tr) = Inr r \<longrightarrow> Q r)"
proof (cases "builtin_print env tr msg")
  case (Inl e)
  then show ?thesis
    by (intro exI [of _ "[]"]) (simp add: print_line_raises)
next
  case (Inr u)
  from assms obtain ev where "snd (f () (tr @ [Print msg])) = (tr @ [Print msg]) @ ev"
    "list_all P ev" "\<forall>r. fst (f () (tr @ [Print msg])) = Inr r \<longrightarrow> Q r"
    unfolding sat_def by blast
  then show ?thesis
    by (intro exI [of _ ev]) (simp add: print_line_returns [OF Inr])
qed

lemma fetch_status: "satT quiet (\<lambda>r. r \<noteq> [] \<and> status_in {''success'', ''error''} r)
    (download_pdf_and_cover env url title)"
  unfolding download_pdf_and_cover_def Let_def
  by (intro satT_tryE satT_returnE sat_bindE_any sat_call_any cover_sat)
     (auto intro!: sat_rules simp: quiet_def startswith_simps status_in_def dict_get_def error_result_def)

lemma fetch_sat: "satT quiet (\<lambda>r. strategy_post env (Some r)) (download_pdf_and_cover env url title)"
  unfolding satT_def
proof
  fix tr
  from fetch_status [of env url title] obtain ev a where
    a: "download_pdf_and_cover env url title tr = (Inr a, tr @ ev)" "list_all quiet ev"
       "a \<noteq> [] \<and> status_in {''success'', ''error''} a"
    unfolding satT_def by blast
  have "fetched env a"
    unfolding fetched_def using a(1) by (metis fst_conv)
  with a show "\<exists>ev a. download_pdf_and_cover env url title tr = (Inr a, tr @ ev) \<and> list_all quiet ev \<and> strategy_post env (Some a)"
    by (simp add: strategy_post_def)
qed

lemma fetch_some_sat:
  "sat quiet (strategy_post env) (bindE (download_pdf_and_cover env url title) (\<lambda>r. returnE (Some r)))"
  by (rule sat_bindE [OF satT_sat [OF fetch_sat]]) (simp add: sat_returnE)

lemma extract_sat: "sat quiet (\<lambda>_. True) (extract_pdfdrive_pdf env u)"
  unfolding extract_pdfdrive_pdf_def
  by (auto intro!: sat_rules simp: quiet_def startswith_simps split: option.split)

lemma strategy_post_None: "strategy_post env None"
  by (simp add: strategy_post_def)

lemma pdfdrive_body_sat:
  "sat quiet (strategy_post env)
     (bindE (call (\<lambda>tr. requests_get env tr search_url) (HttpGet search_url)) (\<lambda>res.
        bindE (liftE (soup_find_ai_search env (resp_text res))) (\<lambda>first_result.
        case first_result of
          None \<Rightarrow> returnE None
        | Some a \<Rightarrow>
            bindE (liftE (attrs_item a ''href'')) (\<lambda>href.
            bindE (extract_pdfdrive_pdf env (''https://www.pdfdrive.com'' @ href)) (\<lambda>pdf_url.
            if str_truthy pdf_url then
              bindE (download_pdf_and_cover env (the pdf_url) (attrs_get a ''title'' book_name))
                (\<lambda>r. returnE (Some r))
            else returnE None)))))"
  by (auto intro!: fetch_some_sat extract_sat sat_rules
           simp: quiet_def strategy_post_None split: option.split)

lemma pdfdrive_handler_sat:
  "sat quiet (strategy_post env)
     (bindE (print_line env (''PDFDrive error: '' @ str_exn e)) (\<lambda>_. returnE None))"
  by (auto intro!: sat_rules simp: quiet_def startswith_simps strategy_post_None)

lemma pdfdrive_handler_satT:
  "prints_ok env \<Longrightarrow> satT quiet (strategy_post env)
     (bindE (print_line env (''PDFDrive error: '' @ str_exn e)) (\<lambda>_. returnE None))"
  by (rule satT_bindE [where R = "\<lambda>_. True"])
     (auto intro!: satT_print_line satT_returnE simp: quiet_def startswith_simps strategy_post_None)

lemma pdfdrive_trace:
  "\<exists>ev. snd (try_pdfdrive_search env n tr)
            = tr @ Print (''Searching PDFDrive for '' @ quote n @ ''...'') # ev
         \<and> list_all quiet ev
         \<and> (\<forall>r. fst (try_pdfdrive_search env n tr) = Inr r \<longrightarrow> strategy_post env r)"
  unfolding try_pdfdrive_search_def Let_def
  by (rule print_then_sat, rule sat_tryE, rule pdfdrive_body_sat, rule pdfdrive_handler_sat)

lemma pdfdrive_events:
  assumes "prints_ok env"
  shows "\<exists>ev r. try_pdfdrive_search env n tr
            = (Inr r, tr @ Print (''Searching PDFDrive for '' @ quote n @ ''...'') # ev)
         \<and> list_all quiet ev \<and> strategy_post env r"
  unfolding try_pdfdrive_search_def Let_def
  by (rule print_then_satT [OF assms], rule satT_tryE, rule pdfdrive_body_sat,
      rule pdfdrive_handler_satT [OF assms])

lemma archive_loop_sat: "sat quiet (strategy_post env) (archive_docs_loop env n ds)"
  by (induction ds)
     (auto intro!: fetch_some_sat sat_rules simp: strategy_post_None Let_def)

lemma archive_body_sat:
  "sat quiet (strategy_post env)
     (bindE (call (\<lambda>tr. requests_get env tr search_url) (HttpGet search_url)) (\<lambda>res.
        bindE (liftE (response_json env res)) (\<lambda>j.
        bindE (liftE (json_get j ''response'' (JDict []))) (\<lambda>resp.
        bindE (liftE (json_get resp ''docs'' (JList []))) (\<lambda>docs.
        bindE (liftE (json_iter docs)) (\<lambda>ds.
        archive_docs_loop env book_name ds))))))"
  by (auto intro!: archive_loop_sat sat_rules simp: quiet_def)

lemma archive_handler_sat:
  "sat quiet (strategy_post env)
     (bindE (print_line env (''Archive.org error: '' @ str_exn e)) (\<lambda>_. returnE None))"
  by (auto intro!: sat_rules simp: quiet_def startswith_simps strategy_post_None)

lemma archive_handler_satT:
  "prints_ok env \<Longrightarrow> satT quiet (strategy_post env)
     (bindE (print_line env (''Archive.org error: '' @ str_exn e)) (\<lambda>_. returnE None))"
  by (rule satT_bindE [where R = "\<lambda>_. True"])
     (auto intro!: satT_print_line satT_returnE simp: quiet_def startswith_simps strategy_post_None)

lemma archive_trace:
  "\<exists>ev. snd (try_archive_search env n tr)
            = tr @ Print (''Searching Archive.org for '' @ quote n @ ''...'') # ev
         \<and> list_all quiet ev
         \<and> (\<forall>r. fst (try_archive_search env n tr) = Inr r \<longrightarrow> strategy_post env r)"
  unfolding try_archive_search_def Let_def
  by (rule print_then_sat, rule sat_tryE, rule archive_body_sat, rule archive_handler_sat)

lemma archive_events:
  assumes "prints_ok env"
  shows "\<exists>ev r. try_archive_search env n tr
            = (Inr r, tr @ Print (''Searching Archive.org for '' @ quote n @ ''...'') # ev)
         \<and> list_all quiet ev \<and> strategy_post env r"
  unfolding try_archive_search_def Let_def
  by (rule print_then_satT [OF assms], rule satT_tryE, rule archive_body_sat,
      rule archive_handler_satT [OF assms])

lemma google_body_sat:
  "sat quiet (strategy_post env)
     (bindE (call (\<lambda>tr. Inr (google_search env tr query 5)) (GoogleSearch query)) (\<lambda>found.
        case find (\<lambda>url. endswith url ''.pdf'') (fst found) of
          Some url \<Rightarrow> bindE (download_pdf_and_cover env url book_name) (\<lambda>r. returnE (Some r))
        | None \<Rightarrow> (case snd found of Some e \<Rightarrow> raiseE e | None \<Rightarrow> returnE None)))"
  by (auto intro!: fetch_some_sat sat_rules simp: quiet_def strategy_post_None split: option.split)

lemma google_handler_sat:
  "sat quiet (strategy_post env)
     (bindE (print_line env (''Google search error: '' @ str_exn e)) (\<lambda>_. returnE None))"
  by (auto intro!: sat_rules simp: quiet_def startswith_simps strategy_post_None)

lemma google_handler_satT:
  "prints_ok env \<Longrightarrow> satT quiet (strategy_post env)
     (bindE (print_line env (''Google search error: '' @ str_exn e)) (\<lambda>_. returnE None))"
  by (rule satT_bindE [where R = "\<lambda>_. True"])
     (auto intro!: satT_print_line satT_returnE simp: quiet_def startswith_simps strategy_post_None)

lemma google_events:
  "\<exists>ev. snd (try_google_pdf_search env n tr)
            = tr @ Print (''Trying Google PDF search for '' @ quote n @ ''...'') # ev
         \<and> list_all quiet ev
         \<and> (\<forall>r. fst (try_google_pdf_search env n tr) = Inr r \<longrightarrow> strategy_post env r)"
  unfolding try_google_pdf_search_def Let_def
  by (rule print_then_sat, rule sat_bindE_any, rule sat_call_any, simp add: quiet_def,
      rule sat_tryE, rule google_body_sat, rule google_handler_sat)

lemma attempts_append: "attempts (xs @ ys) = attempts xs @ attempts ys"
  by (induction xs) (auto split: option.split)

lemma attempts_quiet: "list_all quiet ev \<Longrightarrow> attempts ev = []"
  by (induction ev) (auto simp: quiet_def)

lemma strategy_post_truthy: "strategy_post env (Some r) \<Longrightarrow> truthy (Some r)"
  by (simp add: strategy_post_def)

lemma marker_simps:
  "strategy_of_event (Print (''Searching PDFDrive for '' @ s)) = Some PDFDrive"
  "strategy_of_event (Print (''Searching Archive.org for '' @ s)) = Some ArchiveOrg"
  "strategy_of_event (Print (''Trying Google PDF search for '' @ s)) = Some GooglePDF"
  by (simp_all add: startswith_simps)

section \<open>What each function emits and returns\<close>

lemmas comp_defs = bindE_def tryE_def returnE_def raiseE_def liftE_def call_def print_line_def

lemma print_call_then_satT:
  assumes "prints_ok env" and "imp (tr @ [Print msg]) = Inr u" and "satT P Q (g u)"
  shows "\<exists>ev r. bindE (print_line env msg) (\<lambda>_. bindE (call imp evt) g) tr
                  = (Inr r, tr @ Print msg # evt # ev) \<and> list_all P ev \<and> Q r"
proof -
  from assms(3) obtain ev r where
    "g u (tr @ [Print msg, evt]) = (Inr r, (tr @ [Print msg, evt]) @ ev)" "list_all P ev" "Q r"
    unfolding satT_def by blast
  with assms(1,2) show ?thesis
    by (intro exI [of _ ev] exI [of _ r]) (simp add: comp_defs prints_ok_def)
qed

lemma google_total:
  assumes "prints_ok env"
    and "import_googlesearch env (tr @ [Print (''Trying Google PDF search for '' @ quote n @ ''...'')])
             = Inr ()"
  shows "\<exists>ev r. try_google_pdf_search env n tr
            = (Inr r, tr @ Print (''Trying Google PDF search for '' @ quote n @ ''...'')
                 # Import ''googlesearch'' # ev)
         \<and> list_all quiet ev \<and> strategy_post env r"
  unfolding try_google_pdf_search_def Let_def
  by (rule print_call_then_satT [where imp = "import_googlesearch env", OF assms],
      rule satT_tryE, rule google_body_sat, rule google_handler_satT [OF assms(1)])

lemma direct_url_sat:
  "satT quiet (status_in {''success'', ''error''}) (download_direct_url env url)"
  unfolding download_direct_url_def Let_def
  by (auto intro!: satT_tryE satT_returnE sat_rules
           simp: quiet_def status_in_def dict_get_def error_result_def not_pdf_result_def)

lemma mzuni_body_sat:
  "sat quiet (\<lambda>x. \<forall>r. x = Some r \<longrightarrow> r \<noteq> [] \<and> dict_get r ''status'' = Some (PStr ''success''))
     (bindE (call (\<lambda>tr. requests_get env tr search_url) (HttpGet search_url)) (\<lambda>response.
        bindE (liftE (soup_find_all_links env (resp_text response))) (\<lambda>links.
        bindE (liftE (collect_download_links links)) (\<lambda>download_links.
        case download_links of
          [] \<Rightarrow> returnE None
        | pdf_url # _ \<Rightarrow>
             bindE (call (\<lambda>tr. requests_get env tr pdf_url) (HttpGet pdf_url)) (\<lambda>r.
             bindE (call (\<lambda>tr. copy_to_file env tr file_path r) (FileWrite file_path)) (\<lambda>_.
             returnE (Some [(''status'', PStr ''success''),
                            (''message'', PStr (''Downloaded past paper: '' @ query)),
                            (''file_path'', PStr file_path),
                            (''source'', PStr ''MZUNI Library'')])))))))"
  by (auto intro!: sat_rules simp: quiet_def dict_get_def split: list.split)

lemma mzuni_sat:
  "sat quiet (\<lambda>x. \<forall>r. x = Some r \<longrightarrow> r \<noteq> [] \<and> dict_get r ''status'' = Some (PStr ''success''))
     (try_mzuni_opac_search env q cc yr)"
  unfolding try_mzuni_opac_search_def Let_def
  by (rule sat_tryE, rule mzuni_body_sat)
     (auto intro!: sat_rules simp: quiet_def startswith_simps)


lemma past_paper_body_sat:
  "sat quiet (status_in {''success'', ''info'', ''error''})
     (tryE
       (bindE (try_mzuni_opac_search env identifier course_code year) (\<lambda>mzuni_result.
        if truthy mzuni_result
           \<and> dict_get (the mzuni_result) ''status'' = Some (PStr ''success'')
        then returnE (the mzuni_result)
        else returnE (past_paper_info identifier)))
       (\<lambda>e. returnE [(''status'', PStr ''error''),
                      (''message'', PStr (''Search error: '' @ str_exn e))]))"
  by (rule sat_tryE, rule sat_bindE [OF mzuni_sat])
     (auto intro!: sat_returnE simp: status_in_def dict_get_def past_paper_info_def)

lemma past_paper_body_satT:
  "satT quiet (status_in {''success'', ''info'', ''error''})
     (tryE
       (bindE (try_mzuni_opac_search env identifier course_code year) (\<lambda>mzuni_result.
        if truthy mzuni_result
           \<and> dict_get (the mzuni_result) ''status'' = Some (PStr ''success'')
        then returnE (the mzuni_result)
        else returnE (past_paper_info identifier)))
       (\<lambda>e. returnE [(''status'', PStr ''error''),
                      (''message'', PStr (''Search error: '' @ str_exn e))]))"
  by (rule satT_tryE, rule sat_bindE [OF mzuni_sat])
     (auto intro!: sat_returnE satT_returnE simp: status_in_def dict_get_def past_paper_info_def)

lemma past_paper_trace:
  "\<exists>ev. snd (try_past_paper_download env identifier tr)
            = tr @ Print (''Searching academic sources for '' @ quote identifier @ ''...'') # ev
         \<and> list_all quiet ev
         \<and> (\<forall>r. fst (try_past_paper_download env identifier tr) = Inr r
              \<longrightarrow> status_in {''success'', ''info'', ''error''} r)"
  unfolding try_past_paper_download_def Let_def
  by (rule print_then_sat, rule past_paper_body_sat)

lemma past_paper_events:
  assumes "prints_ok env"
  shows "\<exists>ev r. try_past_paper_download env identifier tr
            = (Inr r, tr @ Print (''Searching academic sources for '' @ quote identifier @ ''...'') # ev)
         \<and> list_all quiet ev \<and> status_in {''success'', ''info'', ''error''} r"
  unfolding try_past_paper_download_def Let_def
  by (rule print_then_satT [OF assms], rule past_paper_body_satT)

lemma status_in_mono: "status_in S r \<Longrightarrow> S \<subseteq> T \<Longrightarrow> status_in T r"
  unfolding status_in_def by blast

lemma sat_of_trace:
  assumes "\<And>tr. \<exists>ev. snd (m tr) = tr @ ev \<and> (\<forall>r. fst (m tr) = Inr r \<longrightarrow> Q r)"
  shows "sat (\<lambda>_. True) Q m"
  unfolding sat_def
proof
  fix tr
  from assms [of tr] obtain ev where "snd (m tr) = tr @ ev" "\<forall>r. fst (m tr) = Inr r \<longrightarrow> Q r"
    by blast
  then show "\<exists>ev. snd (m tr) = tr @ ev \<and> list_all (\<lambda>_. True) ev \<and> (\<forall>a. fst (m tr) = Inr a \<longrightarrow> Q a)"
    by (intro exI [of _ ev]) (simp add: list_all_iff)
qed

lemma sat_of_events:
  assumes "\<And>tr. \<exists>ev r. m tr = (Inr r, tr @ ev) \<and> Q r"
  shows "satT (\<lambda>_. True) Q m"
  unfolding satT_def
proof
  fix tr
  from assms [of tr] obtain ev r where "m tr = (Inr r, tr @ ev)" "Q r" by blast
  then show "\<exists>ev a. m tr = (Inr a, tr @ ev) \<and> list_all (\<lambda>_. True) ev \<and> Q a"
    by (intro exI [of _ ev] exI [of _ r]) (simp add: list_all_iff)
qed

lemma pdfdrive_sat: "sat (\<lambda>_. True) (strategy_post env) (try_pdfdrive_search env n)"
  by (rule sat_of_trace) (use pdfdrive_trace in blast)

lemma archive_sat: "sat (\<lambda>_. True) (strategy_post env) (try_archive_search env n)"
  by (rule sat_of_trace) (use archive_trace in blast)

lemma google_sat: "sat (\<lambda>_. True) (strategy_post env) (try_google_pdf_search env n)"
  by (rule sat_of_trace) (use google_events in blast)

lemma pdfdrive_satT:
  "prints_ok env \<Longrightarrow> satT (\<lambda>_. True) (strategy_post env) (try_pdfdrive_search env n)"
  by (rule sat_of_events) (use pdfdrive_events in blast)

lemma archive_satT:
  "prints_ok env \<Longrightarrow> satT (\<lambda>_. True) (strategy_post env) (try_archive_search env n)"
  by (rule sat_of_events) (use archive_events in blast)

lemma google_satT:
  assumes "prints_ok env" and "\<And>tr. import_googlesearch env tr = Inr ()"
  shows "satT (\<lambda>_. True) (strategy_post env) (try_google_pdf_search env n)"
  by (rule sat_of_events) (use google_total [OF assms(1) assms(2)] in blast)

lemma truthy_the: "truthy x \<Longrightarrow> strategy_post env x \<Longrightarrow> status_in {''success'', ''error''} (the x)"
  by (cases x) (simp_all add: strategy_post_def)

lemma not_found_status: "status_in {''success'', ''error''} (not_found_result c)"
  by (simp add: status_in_def not_found_result_def dict_get_def)

lemma by_book_name_sat:
  "sat (\<lambda>_. True) (status_in {''success'', ''error''}) (download_by_book_name env n)"
  unfolding download_by_book_name_def Let_def
  by (intro sat_bindE [OF pdfdrive_sat] sat_bindE [OF archive_sat] sat_bindE [OF google_sat])
     (auto intro!: sat_returnE sat_bindE [OF archive_sat] sat_bindE [OF google_sat]
           simp: truthy_the not_found_status)

lemma by_book_name_satT:
  assumes "prints_ok env" and "\<And>tr. import_googlesearch env tr = Inr ()"
  shows "satT (\<lambda>_. True) (status_in {''success'', ''error''}) (download_by_book_name env n)"
  unfolding download_by_book_name_def Let_def
  by (intro satT_bindE [OF pdfdrive_satT [OF assms(1)]])
     (auto intro!: satT_returnE satT_bindE [OF archive_satT [OF assms(1)]]
             satT_bindE [OF google_satT [OF assms]]
           simp: truthy_the not_found_status)

lemma direct_url_any: "satT (\<lambda>_. True) (status_in {''success'', ''error'', ''info''}) (download_direct_url env url)"
  by (rule satT_weaken [OF direct_url_sat]) (auto elim: status_in_mono)

lemma past_paper_any:
  "sat (\<lambda>_. True) (status_in {''success'', ''error'', ''info''}) (try_past_paper_download env i)"
  by (rule sat_of_trace) (use past_paper_trace in \<open>blast intro: status_in_mono\<close>)

lemma past_paper_anyT:
  "prints_ok env \<Longrightarrow>
   satT (\<lambda>_. True) (status_in {''success'', ''error'', ''info''}) (try_past_paper_download env i)"
  by (rule sat_of_events) (use past_paper_events in \<open>blast intro: status_in_mono\<close>)

lemma download_pdf_sat:
  "sat (\<lambda>_. True) (status_in {''success'', ''error'', ''info''}) (download_pdf env identifier)"
  unfolding download_pdf_def Let_def
  by (auto intro!: sat_bindE_any sat_call_any satT_sat [OF direct_url_any] past_paper_any
        sat_weaken [OF by_book_name_sat] elim: status_in_mono)

lemma download_pdf_total:
  assumes mk: "os_makedirs env tr DOWNLOAD_DIR = Inr ()"
    and imp: "\<And>tr. import_googlesearch env tr = Inr ()"
    and ok: "prints_ok env"
  shows "\<exists>r. fst (download_pdf env identifier tr) = Inr r"
proof -
  have "satT (\<lambda>_. True) (status_in {''success'', ''error'', ''info''})
          (download_by_book_name env u)" for u
    by (rule satT_weaken [OF by_book_name_satT [OF ok imp]]) (auto elim: status_in_mono)
  then have "satT (\<lambda>_. True) (status_in {''success'', ''error'', ''info''}) m"
    if "m = download_direct_url env u \<or> m = try_past_paper_download env u
        \<or> m = download_by_book_name env u" for m u
    using that direct_url_any past_paper_anyT [OF ok] by auto
  then have "\<exists>r. fst (m (tr @ [Makedirs DOWNLOAD_DIR])) = Inr r"
    if "m = download_direct_url env u \<or> m = try_past_paper_download env u
        \<or> m = download_by_book_name env u" for m u
    using that unfolding satT_def by (metis fst_conv)
  then show ?thesis
    using mk by (auto simp: download_pdf_def Let_def bindE_def call_def)
qed

section \<open>Runs in the sample environments\<close>

lemmas fun_defs =
  download_pdf_def download_direct_url_def download_by_book_name_def
  try_pdfdrive_search_def extract_pdfdrive_pdf_def try_archive_search_def
  try_google_pdf_search_def download_pdf_and_cover_def download_cover_image_def
  try_past_paper_download_def try_mzuni_opac_search_def
  clean_name_of_def not_found_result_def not_pdf_result_def error_result_def
  past_paper_info_def DOWNLOAD_DIR_def Let_def

lemmas str_defs =
  quote_def py_replace_space_def py_lower_def lower_char_def py_strip_def is_space_def
  startswith_def endswith_def re_sub_pdf_suffix_def path_join_def last_segment_def
  attrs_item_def attrs_get_def py_str_def dict_get_def title_char_def

lemmas env_defs =
  env_offline_def env_archive_def env_fetch_fails_def env_pdfdrive_def env_google_def
  env_readonly_def env_no_googlesearch_def empty_response_def
  env_stdout_closed_def env_broken_pipe_def is_print_def env_malformed_def
  env_unparsable_def env_book_page_down_def env_no_preview_def

lemma clean_atomic_habits: "clean_name_of ''Atomic Habits.pdf'' = ''Atomic Habits''"
  by (simp add: clean_name_of_def str_defs)

lemma offline_pdfdrive:
  "fst (try_pdfdrive_search env_offline ''Atomic Habits'' tr) = Inr None"
  by (simp add: fun_defs comp_defs env_defs)

lemma offline_archive:
  "fst (try_archive_search env_offline ''Atomic Habits'' tr) = Inr None"
  by (simp add: fun_defs comp_defs env_defs)

lemma offline_google:
  "fst (try_google_pdf_search env_offline ''Atomic Habits'' tr) = Inr None"
  by (simp add: fun_defs comp_defs env_defs)

lemma pdfdrive_hit:
  "fst (try_pdfdrive_search env_pdfdrive ''Atomic Habits'' tr)
     = Inr (Some atomic_habits_downloaded)"
  by (simp add: fun_defs comp_defs env_defs str_defs atomic_habits_downloaded_def)

lemma archive_pdfdrive_miss:
  "fst (try_pdfdrive_search env_archive ''Atomic Habits'' tr) = Inr None"
  by (simp add: fun_defs comp_defs env_defs str_defs)

lemma archive_hit:
  "fst (try_archive_search env_archive ''Atomic Habits'' tr)
     = Inr (Some atomic_habits_downloaded)"
  by (simp add: fun_defs comp_defs env_defs str_defs atomic_habits_downloaded_def)

lemma google_pdfdrive_miss:
  "fst (try_pdfdrive_search env_google ''Atomic Habits'' tr) = Inr None"
  by (simp add: fun_defs comp_defs env_defs str_defs)

lemma google_archive_miss:
  "fst (try_archive_search env_google ''Atomic Habits'' tr) = Inr None"
  by (simp add: fun_defs comp_defs env_defs str_defs)

lemma google_hit:
  "fst (try_google_pdf_search env_google ''Atomic Habits'' tr)
     = Inr (Some atomic_habits_downloaded)"
  by (simp add: fun_defs comp_defs env_defs str_defs atomic_habits_downloaded_def)

lemma fetch_fails_pdfdrive_miss:
  "fst (try_pdfdrive_search env_fetch_fails ''Atomic Habits'' tr) = Inr None"
  by (simp add: fun_defs comp_defs env_defs str_defs)

lemma fetch_fails_archive:
  "fst (try_archive_search env_fetch_fails ''Atomic Habits'' tr)
     = Inr (Some [(''status'', PStr ''error''), (''message'', PStr ''Read timed out'')])"
  by (simp add: fun_defs comp_defs env_defs str_defs)

lemma clean_plain: "clean_name_of ''Atomic Habits'' = ''Atomic Habits''"
  by (simp add: clean_name_of_def str_defs)

section \<open>The claims\<close>

subsection \<open>C2: order of the fallback chain\<close>

lemma chain_cases:
  fixes env book_name tr
  defines "clean \<equiv> clean_name_of book_name"
  defines "p \<equiv> try_pdfdrive_search env clean tr"
  defines "a \<equiv> try_archive_search env clean (snd p)"
  defines "g \<equiv> try_google_pdf_search env clean (snd a)"
  defines "d \<equiv> download_by_book_name env book_name tr"
  shows "attempts (drop (length tr) (snd p)) = [PDFDrive]"
    and "attempts (drop (length tr) (snd a)) = [PDFDrive, ArchiveOrg]"
    and "attempts (drop (length tr) (snd g)) = [PDFDrive, ArchiveOrg, GooglePDF]"
    and "fst p = Inr (Some r) \<Longrightarrow> d = (Inr r, snd p)"
    and "fst p = Inr None \<Longrightarrow> fst a = Inr (Some r) \<Longrightarrow> d = (Inr r, snd a)"
    and "fst p = Inr None \<Longrightarrow> fst a = Inr None \<Longrightarrow> snd d = snd g"
    and "fst p = Inr None \<Longrightarrow> fst a = Inr None \<Longrightarrow> fst g = Inr (Some r) \<Longrightarrow> fst d = Inr r"
proof -
  define mp where "mp = Print (''Searching PDFDrive for '' @ quote clean @ ''...'')"
  define ma where "ma = Print (''Searching Archive.org for '' @ quote clean @ ''...'')"
  define mg where "mg = Print (''Trying Google PDF search for '' @ quote clean @ ''...'')"
  obtain e1 where p: "snd p = tr @ mp # e1" and q1: "list_all quiet e1"
    and s1: "\<forall>r. fst p = Inr r \<longrightarrow> strategy_post env r"
    using pdfdrive_trace [of env clean tr] unfolding mp_def p_def by blast
  obtain e2 where a: "snd a = snd p @ ma # e2" and q2: "list_all quiet e2"
    and s2: "\<forall>r. fst a = Inr r \<longrightarrow> strategy_post env r"
    using archive_trace [of env clean "snd p"] unfolding ma_def a_def by blast
  obtain e3 where g: "snd g = snd a @ mg # e3" and q3: "list_all quiet e3"
    and s3: "\<forall>r. fst g = Inr r \<longrightarrow> strategy_post env r"
    using google_events [of env clean "snd a"] unfolding mg_def g_def by blast
  have m: "strategy_of_event mp = Some PDFDrive" "strategy_of_event ma = Some ArchiveOrg"
    "strategy_of_event mg = Some GooglePDF"
    unfolding mp_def ma_def mg_def by (rule marker_simps)+
  show "attempts (drop (length tr) (snd p)) = [PDFDrive]"
    unfolding p using q1 m by (simp add: attempts_quiet)
  show "attempts (drop (length tr) (snd a)) = [PDFDrive, ArchiveOrg]"
    unfolding a p using q1 q2 m by (simp add: attempts_quiet attempts_append)
  show "attempts (drop (length tr) (snd g)) = [PDFDrive, ArchiveOrg, GooglePDF]"
    unfolding g a p using q1 q2 q3 m by (simp add: attempts_quiet attempts_append)
  have dp: "d = bindE (try_pdfdrive_search env clean) (\<lambda>pdfdrive_result.
      if truthy pdfdrive_result then returnE (the pdfdrive_result)
      else
        bindE (try_archive_search env clean) (\<lambda>archive_result.
        if truthy archive_result then returnE (the archive_result)
        else
          bindE (try_google_pdf_search env clean) (\<lambda>google_result.
          if truthy google_result then returnE (the google_result)
          else returnE (not_found_result clean)))) tr"
    unfolding d_def download_by_book_name_def Let_def clean_def ..
  show "d = (Inr r, snd p)" if "fst p = Inr (Some r)"
    using that s1 strategy_post_truthy [of env r] unfolding dp
    by (cases "try_pdfdrive_search env clean tr") (simp add: p_def bindE_def returnE_def)
  have da: "d = bindE (try_archive_search env clean) (\<lambda>archive_result.
        if truthy archive_result then returnE (the archive_result)
        else
          bindE (try_google_pdf_search env clean) (\<lambda>google_result.
          if truthy google_result then returnE (the google_result)
          else returnE (not_found_result clean))) (snd p)"
    if "fst p = Inr None"
    using that unfolding dp
    by (cases "try_pdfdrive_search env clean tr") (simp add: p_def bindE_def)
  show "d = (Inr r, snd a)" if "fst p = Inr None" "fst a = Inr (Some r)"
    using that(2) s2 strategy_post_truthy [of env r] unfolding da [OF that(1)]
    by (cases "try_archive_search env clean (snd p)") (simp add: a_def bindE_def returnE_def)
  have dg: "d = bindE (try_google_pdf_search env clean) (\<lambda>google_result.
          if truthy google_result then returnE (the google_result)
          else returnE (not_found_result clean)) (snd a)"
    if "fst p = Inr None" "fst a = Inr None"
    using that(2) unfolding da [OF that(1)]
    by (cases "try_archive_search env clean (snd p)") (simp add: a_def bindE_def)
  show "snd d = snd g" if "fst p = Inr None" "fst a = Inr None"
    unfolding dg [OF that]
    by (cases "try_google_pdf_search env clean (snd a)")
       (auto simp: g_def bindE_def returnE_def split: sum.splits)
  show "fst d = Inr r" if "fst p = Inr None" "fst a = Inr None" "fst g = Inr (Some r)"
    unfolding dg [OF that(1,2)] using that(3) s3 strategy_post_truthy [of env r]
    by (cases "try_google_pdf_search env clean (snd a)")
       (auto simp: g_def bindE_def returnE_def split: sum.splits)
qed

text \<open>
  C2. For a book name, the chain invokes PDFDrive first; Archive.org is invoked only after
  PDFDrive returned \<open>None\<close>, and the web search only after both returned \<open>None\<close>. The
  result is that of the first strategy whose result is not \<open>None\<close>, and the run ends where
  that strategy ended: no later strategy is invoked.
\<close>

theorem fallback_chain_order:
  "let clean = clean_name_of book_name;
       p = try_pdfdrive_search env clean tr;
       a = try_archive_search env clean (snd p);
       g = try_google_pdf_search env clean (snd a);
       d = download_by_book_name env book_name tr
   in (\<forall>r. fst p = Inr (Some r) \<longrightarrow>
            d = (Inr r, snd p) \<and> attempts (drop (length tr) (snd d)) = [PDFDrive])
      \<and> (\<forall>r. fst p = Inr None \<and> fst a = Inr (Some r) \<longrightarrow>
            d = (Inr r, snd a) \<and> attempts (drop (length tr) (snd d)) = [PDFDrive, ArchiveOrg])
      \<and> (fst p = Inr None \<and> fst a = Inr None \<longrightarrow>
            snd d = snd g
            \<and> attempts (drop (length tr) (snd d)) = [PDFDrive, ArchiveOrg, GooglePDF]
            \<and> (\<forall>r. fst g = Inr (Some r) \<longrightarrow> fst d = Inr r))"
proof -
  note c = chain_cases [where env = env and book_name = book_name and tr = tr]
  define clean where "clean = clean_name_of book_name"
  define p where "p = try_pdfdrive_search env clean tr"
  define a where "a = try_archive_search env clean (snd p)"
  define g where "g = try_google_pdf_search env clean (snd a)"
  define d where "d = download_by_book_name env book_name tr"
  note c' = c [folded clean_def, folded p_def, folded a_def, folded g_def, folded d_def]
  have 1: "d = (Inr r, snd p) \<and> attempts (drop (length tr) (snd d)) = [PDFDrive]"
    if "fst p = Inr (Some r)" for r
    using c'(4) [OF that] c'(1) by simp
  have 2: "d = (Inr r, snd a) \<and> attempts (drop (length tr) (snd d)) = [PDFDrive, ArchiveOrg]"
    if "fst p = Inr None \<and> fst a = Inr (Some r)" for r
    using c'(5) [of r] that c'(2) by simp
  have 3: "snd d = snd g
      \<and> attempts (drop (length tr) (snd d)) = [PDFDrive, ArchiveOrg, GooglePDF]
      \<and> (\<forall>r. fst g = Inr (Some r) \<longrightarrow> fst d = Inr r)"
    if "fst p = Inr None \<and> fst a = Inr None"
    using c'(6) c'(7) that c'(3) by simp
  show ?thesis
    unfolding Let_def
    unfolding clean_def [symmetric] p_def [symmetric] a_def [symmetric] g_def [symmetric]
      d_def [symmetric]
    using 1 2 3 by blast
qed

theorem fallback_chain_order_witness:
  "fst (download_by_book_name env_pdfdrive ''Atomic Habits.pdf'' []) = Inr atomic_habits_downloaded
   \<and> attempts (snd (download_by_book_name env_pdfdrive ''Atomic Habits.pdf'' [])) = [PDFDrive]
   \<and> fst (download_by_book_name env_archive ''Atomic Habits.pdf'' []) = Inr atomic_habits_downloaded
   \<and> attempts (snd (download_by_book_name env_archive ''Atomic Habits.pdf'' []))
       = [PDFDrive, ArchiveOrg]
   \<and> fst (download_by_book_name env_google ''Atomic Habits.pdf'' []) = Inr atomic_habits_downloaded
   \<and> attempts (snd (download_by_book_name env_google ''Atomic Habits.pdf'' []))
       = [PDFDrive, ArchiveOrg, GooglePDF]"
  using fallback_chain_order [where book_name = "''Atomic Habits.pdf''" and env = env_pdfdrive and tr = "[]"]
    fallback_chain_order [where book_name = "''Atomic Habits.pdf''" and env = env_archive and tr = "[]"]
    fallback_chain_order [where book_name = "''Atomic Habits.pdf''" and env = env_google and tr = "[]"]
  by (auto simp: Let_def clean_atomic_habits pdfdrive_hit archive_pdfdrive_miss archive_hit
        google_pdfdrive_miss google_archive_miss google_hit)

subsection \<open>C3: a URL that does not end in .pdf\<close>

text \<open>
  C3. When the lowercased URL does not end in \<open>.pdf\<close>, \<open>_download_direct_url\<close> returns the
  error Result with the message "URL doesn't point to a PDF file" and leaves the trace as it
  was: no request is sent and no file is written. This holds for the function as each of
  the three files has it.
\<close>

theorem direct_url_not_pdf:
  assumes "\<not> endswith (py_lower url) ''.pdf''"
  shows "download_direct_url env url tr
           = (Inr [(''status'', PStr ''error''),
                   (''message'', PStr ''URL doesn't point to a PDF file'')], tr)
       \<and> Pdf_download_direct_url env url tr = download_direct_url env url tr
       \<and> Example_download_direct_url env url tr = download_direct_url env url tr"
  using assms
  by (simp add: download_direct_url_def Pdf_download_direct_url_def
        Example_download_direct_url_def returnE_def not_pdf_result_def)

theorem direct_url_not_pdf_witness:
  "\<not> endswith (py_lower ''https://example.com/book.html'') ''.pdf''
   \<and> download_direct_url env_archive ''https://example.com/book.html'' []
       = (Inr [(''status'', PStr ''error''),
               (''message'', PStr ''URL doesn't point to a PDF file'')], [])"
proof -
  have h: "\<not> endswith (py_lower ''https://example.com/book.html'') ''.pdf''"
    by (simp add: str_defs)
  show ?thesis
    using h direct_url_not_pdf [OF h, of env_archive "[]"] by simp
qed

subsection \<open>C4: past papers without a downloadable link\<close>











subsection \<open>C7: nothing found anywhere\<close>

text \<open>
  C7. When the three strategies, run one after the other on the cleaned name, all return
  \<open>None\<close>, \<open>_download_by_book_name\<close> returns the error Result whose \<open>alternatives\<close> are
  the PDFDrive and Archive.org search pages for the cleaned name with every space replaced
  by a plus sign. The cleaned name is the book name without a final \<open>.pdf\<close>, stripped.
\<close>

theorem all_strategies_fail_gives_alternatives:
  "let clean = py_strip (re_sub_pdf_suffix book_name);
       p = try_pdfdrive_search env clean tr;
       a = try_archive_search env clean (snd p);
       g = try_google_pdf_search env clean (snd a)
   in fst p = Inr None \<and> fst a = Inr None \<and> fst g = Inr None \<longrightarrow>
        download_by_book_name env book_name tr
          = (Inr [(''status'', PStr ''error''),
                  (''message'', PStr (''Could not find PDF for '' @ quote clean)),
                  (''alternatives'', PList
                     [''https://www.pdfdrive.com/search?q='' @ py_replace_space clean,
                      ''https://archive.org/search.php?query='' @ py_replace_space clean])],
             snd g)"
proof -
  define clean where "clean = py_strip (re_sub_pdf_suffix book_name)"
  obtain x1 t1 where p: "try_pdfdrive_search env clean tr = (x1, t1)" by fastforce
  obtain x2 t2 where a: "try_archive_search env clean t1 = (x2, t2)" by fastforce
  obtain x3 t3 where g: "try_google_pdf_search env clean t2 = (x3, t3)" by fastforce
  show ?thesis
    unfolding Let_def clean_def [symmetric]
    using p a g
    by (simp add: download_by_book_name_def clean_name_of_def clean_def [symmetric]
          not_found_result_def bindE_def returnE_def)
qed

theorem all_strategies_fail_gives_alternatives_witness:
  "download_by_book_name env_offline ''Atomic Habits.pdf'' []
     = (Inr [(''status'', PStr ''error''),
             (''message'', PStr (''Could not find PDF for '' @ quote ''Atomic Habits'')),
             (''alternatives'', PList
                [''https://www.pdfdrive.com/search?q=Atomic+Habits'',
                 ''https://archive.org/search.php?query=Atomic+Habits''])],
        snd (try_google_pdf_search env_offline ''Atomic Habits''
          (snd (try_archive_search env_offline ''Atomic Habits''
            (snd (try_pdfdrive_search env_offline ''Atomic Habits'' []))))))"
proof -
  have c: "py_strip (re_sub_pdf_suffix ''Atomic Habits.pdf'') = ''Atomic Habits''"
    using clean_atomic_habits by (simp add: clean_name_of_def)
  have r: "py_replace_space ''Atomic Habits'' = ''Atomic+Habits''"
    by (simp add: py_replace_space_def)
  show ?thesis
    using all_strategies_fail_gives_alternatives
      [where book_name = "''Atomic Habits.pdf''" and env = env_offline and tr = "[]"]
    unfolding Let_def c
    by (simp add: offline_pdfdrive offline_archive offline_google r)
qed

subsection \<open>C9: whatever starts with http is taken for a URL\<close>

lemma direct_url_events:
  "\<exists>ev r. download_direct_url env url tr = (Inr r, tr @ ev) \<and> list_all quiet ev"
  using direct_url_sat [of env url] unfolding satT_def by blast

text \<open>
  C9. When the stripped, lowercased identifier starts with \<open>http\<close>, \<open>download_pdf\<close> creates
  the download directory and hands the stripped identifier to \<open>_download_direct_url\<close>; no
  lookup strategy is invoked. When the identifier does not also end in \<open>.pdf\<close>, nothing
  more happens than the creation of the directory, and the Result, returned as soon as the
  directory could be created, is the error Result "URL doesn't point to a PDF file".
\<close>

theorem http_prefix_routes_to_direct_url:
  assumes "startswith (py_lower (py_strip identifier)) ''http''"
  shows "download_pdf env identifier tr
           = bindE (call (\<lambda>t. os_makedirs env t DOWNLOAD_DIR) (Makedirs DOWNLOAD_DIR))
               (\<lambda>_. download_direct_url env (py_strip identifier)) tr
       \<and> attempts (drop (length tr) (snd (download_pdf env identifier tr))) = []
       \<and> (\<not> endswith (py_lower (py_strip identifier)) ''.pdf'' \<longrightarrow>
            snd (download_pdf env identifier tr) = tr @ [Makedirs DOWNLOAD_DIR]
            \<and> (os_makedirs env tr DOWNLOAD_DIR = Inr () \<longrightarrow>
                 fst (download_pdf env identifier tr)
                   = Inr [(''status'', PStr ''error''),
                          (''message'', PStr ''URL doesn't point to a PDF file'')]))"
proof -
  have route: "download_pdf env identifier tr
           = bindE (call (\<lambda>t. os_makedirs env t DOWNLOAD_DIR) (Makedirs DOWNLOAD_DIR))
               (\<lambda>_. download_direct_url env (py_strip identifier)) tr"
    using assms by (simp add: download_pdf_def Let_def)
  obtain ev r where ev: "download_direct_url env (py_strip identifier) (tr @ [Makedirs DOWNLOAD_DIR])
      = (Inr r, (tr @ [Makedirs DOWNLOAD_DIR]) @ ev)" "list_all quiet ev"
    using direct_url_events by blast
  have quiet: "attempts (drop (length tr) (snd (download_pdf env identifier tr))) = []"
    unfolding route using ev
    by (cases "os_makedirs env tr DOWNLOAD_DIR")
       (simp_all add: bindE_def call_def attempts_quiet)
  have not_pdf: "snd (download_pdf env identifier tr) = tr @ [Makedirs DOWNLOAD_DIR]
      \<and> (os_makedirs env tr DOWNLOAD_DIR = Inr () \<longrightarrow>
                 fst (download_pdf env identifier tr)
                   = Inr [(''status'', PStr ''error''),
                          (''message'', PStr ''URL doesn't point to a PDF file'')])"
    if "\<not> endswith (py_lower (py_strip identifier)) ''.pdf''"
    unfolding route using that
    by (cases "os_makedirs env tr DOWNLOAD_DIR")
       (simp_all add: bindE_def call_def download_direct_url_def returnE_def not_pdf_result_def)
  show ?thesis
    using route quiet not_pdf by blast
qed

theorem http_prefix_routes_to_direct_url_witness:
  "startswith (py_lower (py_strip ''  httpd tutorial '')) ''http''
   \<and> download_pdf env_archive ''  httpd tutorial '' []
       = (Inr [(''status'', PStr ''error''),
               (''message'', PStr ''URL doesn't point to a PDF file'')],
          [Makedirs ''downloads''])
   \<and> attempts (snd (download_pdf env_archive ''  httpd tutorial '' [])) = []"
proof -
  have h: "startswith (py_lower (py_strip ''  httpd tutorial '')) ''http''"
    by (simp add: str_defs)
  have n: "\<not> endswith (py_lower (py_strip ''  httpd tutorial '')) ''.pdf''"
    by (simp add: str_defs)
  have m: "os_makedirs env_archive [] DOWNLOAD_DIR = Inr ()"
    by (simp add: env_defs)
  note t = http_prefix_routes_to_direct_url [OF h, of env_archive "[]"]
  from t n have s: "snd (download_pdf env_archive ''  httpd tutorial '' [])
      = [] @ [Makedirs DOWNLOAD_DIR]"
    by blast
  from t n m have f: "fst (download_pdf env_archive ''  httpd tutorial '' [])
      = Inr [(''status'', PStr ''error''),
             (''message'', PStr ''URL doesn't point to a PDF file'')]"
    by blast
  from t have a: "attempts (drop (length ([] :: trace))
      (snd (download_pdf env_archive ''  httpd tutorial '' []))) = []"
    by blast
  show ?thesis
    using h s f a by (simp add: prod_eq_iff DOWNLOAD_DIR_def)
qed

subsection \<open>C10: the three files agree on the fallback chain\<close>

lemma Pdf_cover_eq: "Pdf_download_cover_image = download_cover_image"
  and Example_cover_eq: "Example_download_cover_image = download_cover_image"
  unfolding fun_eq_iff Pdf_download_cover_image_def Example_download_cover_image_def
    download_cover_image_def Pdf_DOWNLOAD_DIR_def Example_DOWNLOAD_DIR_def DOWNLOAD_DIR_def
  by simp_all

lemma Pdf_fetch_eq: "Pdf_download_pdf_and_cover = download_pdf_and_cover"
  and Example_fetch_eq: "Example_download_pdf_and_cover = download_pdf_and_cover"
  unfolding fun_eq_iff Pdf_download_pdf_and_cover_def Example_download_pdf_and_cover_def
    download_pdf_and_cover_def Pdf_cover_eq Example_cover_eq error_result_def
    Pdf_DOWNLOAD_DIR_def Example_DOWNLOAD_DIR_def DOWNLOAD_DIR_def
  by simp_all

lemma Pdf_extract_eq: "Pdf_extract_pdfdrive_pdf = extract_pdfdrive_pdf"
  and Example_extract_eq: "Example_extract_pdfdrive_pdf = extract_pdfdrive_pdf"
  unfolding fun_eq_iff Pdf_extract_pdfdrive_pdf_def Example_extract_pdfdrive_pdf_def
    extract_pdfdrive_pdf_def
  by simp_all

lemma Pdf_pdfdrive_eq: "Pdf_try_pdfdrive_search = try_pdfdrive_search"
  and Example_pdfdrive_eq: "Example_try_pdfdrive_search = try_pdfdrive_search"
  unfolding fun_eq_iff Pdf_try_pdfdrive_search_def Example_try_pdfdrive_search_def
    try_pdfdrive_search_def Pdf_extract_eq Example_extract_eq Pdf_fetch_eq Example_fetch_eq
  by simp_all

lemma Pdf_loop_eq: "Pdf_archive_docs_loop env n ds = archive_docs_loop env n ds"
  by (induction ds) (simp_all add: Pdf_fetch_eq cong: if_cong)

lemma Example_loop_eq: "Example_archive_docs_loop env n ds = archive_docs_loop env n ds"
  by (induction ds) (simp_all add: Example_fetch_eq cong: if_cong)

lemma Pdf_archive_eq: "Pdf_try_archive_search = try_archive_search"
  and Example_archive_eq: "Example_try_archive_search = try_archive_search"
  unfolding fun_eq_iff Pdf_try_archive_search_def Example_try_archive_search_def
    try_archive_search_def Pdf_loop_eq Example_loop_eq
  by simp_all

lemma Pdf_google_eq: "Pdf_try_google_pdf_search = try_google_pdf_search"
  and Example_google_eq: "Example_try_google_pdf_search = try_google_pdf_search"
  unfolding fun_eq_iff Pdf_try_google_pdf_search_def Example_try_google_pdf_search_def
    try_google_pdf_search_def Pdf_fetch_eq Example_fetch_eq
  by simp_all

text \<open>
  C10. The embeddings of \<open>_download_by_book_name\<close> and of the three strategy functions
  taken from \<open>Pdf.py\<close> and from \<open>Example.py\<close> are the same functions as those taken from
  \<open>Downloader.py\<close>: in every environment, for every book name and from every history they
  give the same Result and the same trace.
\<close>

theorem fallback_chain_same_in_all_files:
  "Pdf_download_by_book_name = download_by_book_name
   \<and> Example_download_by_book_name = download_by_book_name
   \<and> Pdf_try_pdfdrive_search = try_pdfdrive_search
   \<and> Example_try_pdfdrive_search = try_pdfdrive_search
   \<and> Pdf_try_archive_search = try_archive_search
   \<and> Example_try_archive_search = try_archive_search
   \<and> Pdf_try_google_pdf_search = try_google_pdf_search
   \<and> Example_try_google_pdf_search = try_google_pdf_search"
  unfolding fun_eq_iff Pdf_download_by_book_name_def Example_download_by_book_name_def
    download_by_book_name_def clean_name_of_def not_found_result_def
    Pdf_pdfdrive_eq Example_pdfdrive_eq Pdf_archive_eq Example_archive_eq
    Pdf_google_eq Example_google_eq
  by simp

subsection \<open>C5: what a strategy does with a failure\<close>

lemma fetch_request_fails:
  "requests_get env tr url = Inl e \<Longrightarrow>
   fst (download_pdf_and_cover env url title tr) = Inr (error_result e)"
  by (simp add: download_pdf_and_cover_def comp_defs Let_def)

lemma strategy_post_fetched:
  assumes "strategy_post env (Some r)"
  shows "(\<exists>url title tr'. fst (download_pdf_and_cover env url title tr') = Inr r)
       \<and> dict_get r ''status'' \<in> {Some (PStr ''success''), Some (PStr ''error'')}"
  using assms by (auto simp: strategy_post_def fetched_def status_in_def)

lemma fetch_returns: "\<exists>r t. download_pdf_and_cover env url title tr = (Inr r, t)"
  using fetch_status [of env url title] unfolding satT_def by blast

lemma archive_loop_skip:
  "\<forall>x \<in> set ds1. json_contains ''identifier'' x = Inr False \<Longrightarrow>
   archive_docs_loop env n (ds1 @ ds) t = archive_docs_loop env n ds t"
  by (induction ds1) (simp_all add: bindE_def liftE_def)

lemma pdfdrive_lookup_cases:
  assumes ok: "prints_ok env"
  shows "let line = ''Searching PDFDrive for '' @ quote n @ ''...'';
         t0 = tr @ [Print line];
         url = ''https://www.pdfdrive.com/search?q='' @ py_replace_space n;
         t1 = t0 @ [HttpGet url];
         p = fst (try_pdfdrive_search env n tr)
     in (\<forall>e. requests_get env t0 url = Inl e \<longrightarrow> p = Inr None)
      \<and> (\<forall>res. requests_get env t0 url = Inr res \<longrightarrow>
           (\<forall>e. soup_find_ai_search env (resp_text res) = Inl e \<longrightarrow> p = Inr None)
         \<and> (soup_find_ai_search env (resp_text res) = Inr None \<longrightarrow> p = Inr None)
         \<and> (\<forall>a. soup_find_ai_search env (resp_text res) = Inr (Some a) \<longrightarrow>
              (map_of a ''href'' = None \<longrightarrow> p = Inr None)
            \<and> (\<forall>h. map_of a ''href'' = Some h \<longrightarrow>
                 (\<forall>e. requests_get env t1 (''https://www.pdfdrive.com'' @ h) = Inl e
                    \<longrightarrow> p = Inr None)
               \<and> (\<forall>page. requests_get env t1 (''https://www.pdfdrive.com'' @ h) = Inr page
                      \<and> \<not> str_truthy (re_search_preview env (resp_text page))
                    \<longrightarrow> p = Inr None)
               \<and> (\<forall>page u. requests_get env t1 (''https://www.pdfdrive.com'' @ h) = Inr page
                      \<and> re_search_preview env (resp_text page) = Some u \<and> u \<noteq> []
                    \<longrightarrow> (\<exists>r. fst (download_pdf_and_cover env u (attrs_get a ''title'' n)
                                   (t1 @ [HttpGet (''https://www.pdfdrive.com'' @ h)])) = Inr r
                            \<and> p = Inr (Some r))))))"
proof -
  define line where "line = ''Searching PDFDrive for '' @ quote n @ ''...''"
  define url where "url = ''https://www.pdfdrive.com/search?q='' @ py_replace_space n"
  note defs = try_pdfdrive_search_def extract_pdfdrive_pdf_def Let_def attrs_item_def
    bindE_def tryE_def returnE_def liftE_def call_def print_line_def
  have pr: "builtin_print env t l = Inr ()" for t l
    using ok by (simp add: prints_ok_def)
  have found: "\<exists>r. fst (download_pdf_and_cover env u (attrs_get a ''title'' n)
                     ((tr @ [Print line]) @ [HttpGet url]
                        @ [HttpGet (''https://www.pdfdrive.com'' @ h)])) = Inr r
                 \<and> fst (try_pdfdrive_search env n tr) = Inr (Some r)"
    if "requests_get env (tr @ [Print line]) url = Inr res"
      "soup_find_ai_search env (resp_text res) = Inr (Some a)"
      "map_of a ''href'' = Some h"
      "requests_get env ((tr @ [Print line]) @ [HttpGet url]) (''https://www.pdfdrive.com'' @ h)
         = Inr page"
      "re_search_preview env (resp_text page) = Some u" "u \<noteq> []" for res a h page u
  proof -
    obtain r t where f: "download_pdf_and_cover env u (attrs_get a ''title'' n)
        ((tr @ [Print line]) @ [HttpGet url] @ [HttpGet (''https://www.pdfdrive.com'' @ h)])
        = (Inr r, t)"
      using fetch_returns by blast
    show ?thesis
      using that f pr by (intro exI [of _ r]) (simp add: defs line_def url_def)
  qed
  show ?thesis
    unfolding Let_def line_def [symmetric] url_def [symmetric]
  proof (intro conjI allI impI, goal_cases)
    case (1 e) then show ?case using pr by (simp add: defs line_def url_def)
  next
    case (2 res e) then show ?case using pr by (simp add: defs line_def url_def)
  next
    case (3 res) then show ?case using pr by (simp add: defs line_def url_def)
  next
    case (4 res a) then show ?case using pr by (simp add: defs line_def url_def)
  next
    case (5 res a h e) then show ?case using pr by (simp add: defs line_def url_def)
  next
    case (6 res a h page) then show ?case using pr
      by (cases "re_search_preview env (resp_text page)") (simp_all add: defs line_def url_def)
  next
    case (7 res a h page u) then show ?case using found [of res a h page u] by simp
  qed
qed

lemma archive_lookup_cases:
  assumes ok: "prints_ok env"
  shows "let line = ''Searching Archive.org for '' @ quote n @ ''...'';
         t0 = tr @ [Print line];
         url = ''https://archive.org/advancedsearch.php?q=title%3A('' @ py_replace_space n
                 @ '')&output=json'';
         t1 = t0 @ [HttpGet url];
         a = fst (try_archive_search env n tr)
     in (\<forall>e. requests_get env t0 url = Inl e \<longrightarrow> a = Inr None)
      \<and> (\<forall>res. requests_get env t0 url = Inr res \<longrightarrow>
           (\<forall>e. response_json env res = Inl e \<longrightarrow> a = Inr None)
         \<and> (\<forall>j. response_json env res = Inr j \<longrightarrow>
              (\<forall>e. json_get j ''response'' (JDict []) = Inl e \<longrightarrow> a = Inr None)
            \<and> (\<forall>resp. json_get j ''response'' (JDict []) = Inr resp \<longrightarrow>
                 (\<forall>e. json_get resp ''docs'' (JList []) = Inl e \<longrightarrow> a = Inr None)
               \<and> (\<forall>docs. json_get resp ''docs'' (JList []) = Inr docs \<longrightarrow>
                    (\<forall>e. json_iter docs = Inl e \<longrightarrow> a = Inr None)
                  \<and> (\<forall>ds. json_iter docs = Inr ds
                         \<and> (\<forall>d \<in> set ds. json_contains ''identifier'' d = Inr False)
                       \<longrightarrow> a = Inr None)
                  \<and> (\<forall>ds1 d ds2 e. json_iter docs = Inr (ds1 @ d # ds2)
                         \<and> (\<forall>x \<in> set ds1. json_contains ''identifier'' x = Inr False)
                         \<and> (json_contains ''identifier'' d = Inl e
                            \<or> json_contains ''identifier'' d = Inr True
                              \<and> json_item d ''identifier'' = Inl e)
                       \<longrightarrow> a = Inr None)
                  \<and> (\<forall>ds1 d ds2 ident. json_iter docs = Inr (ds1 @ d # ds2)
                         \<and> (\<forall>x \<in> set ds1. json_contains ''identifier'' x = Inr False)
                         \<and> json_contains ''identifier'' d = Inr True
                         \<and> json_item d ''identifier'' = Inr ident
                       \<longrightarrow> (\<exists>r. fst (download_pdf_and_cover env
                                        (''https://archive.org/download/'' @ py_str env ident
                                           @ ''/'' @ py_str env ident @ ''.pdf'') n t1) = Inr r
                              \<and> a = Inr (Some r)))))))"
proof -
  define line where "line = ''Searching Archive.org for '' @ quote n @ ''...''"
  define url where "url = ''https://archive.org/advancedsearch.php?q=title%3A(''
      @ py_replace_space n @ '')&output=json''"
  note defs = try_archive_search_def Let_def
    bindE_def tryE_def returnE_def liftE_def call_def print_line_def
  have pr: "builtin_print env t l = Inr ()" for t l
    using ok by (simp add: prints_ok_def)
  have loop: "fst (try_archive_search env n tr)
      = fst (tryE (archive_docs_loop env n ds)
          (\<lambda>e. bindE (print_line env (''Archive.org error: '' @ str_exn e)) (\<lambda>_. returnE None))
          ((tr @ [Print line]) @ [HttpGet url]))"
    if "requests_get env (tr @ [Print line]) url = Inr res" "response_json env res = Inr j"
      "json_get j ''response'' (JDict []) = Inr resp"
      "json_get resp ''docs'' (JList []) = Inr docs" "json_iter docs = Inr ds"
    for res j resp docs ds
    using that pr by (simp add: defs line_def url_def)
  have handler: "fst (bindE (print_line env msg) (\<lambda>_. returnE None) t) = Inr None" for msg t
    using pr by (simp add: bindE_def print_line_def call_def returnE_def)
  have no_id: "fst (tryE (archive_docs_loop env n ds)
          (\<lambda>e. bindE (print_line env (''Archive.org error: '' @ str_exn e)) (\<lambda>_. returnE None))
          t) = Inr None"
    if "\<forall>d \<in> set ds. json_contains ''identifier'' d = Inr False" for ds t
    using archive_loop_skip [OF that, of env n "[]" t]
    by (simp add: tryE_def returnE_def)
  have bad: "fst (tryE (archive_docs_loop env n (ds1 @ d # ds2))
          (\<lambda>e. bindE (print_line env (''Archive.org error: '' @ str_exn e)) (\<lambda>_. returnE None))
          t) = Inr None"
    if "\<forall>x \<in> set ds1. json_contains ''identifier'' x = Inr False"
      "json_contains ''identifier'' d = Inl e
       \<or> json_contains ''identifier'' d = Inr True \<and> json_item d ''identifier'' = Inl e"
    for ds1 d ds2 e t
    unfolding tryE_def archive_loop_skip [OF that(1)]
    using that(2) handler by (auto simp: bindE_def liftE_def)
  have hit: "\<exists>r. fst (download_pdf_and_cover env
                      (''https://archive.org/download/'' @ py_str env ident
                         @ ''/'' @ py_str env ident @ ''.pdf'') n t) = Inr r
       \<and> fst (tryE (archive_docs_loop env n (ds1 @ d # ds2))
          (\<lambda>e. bindE (print_line env (''Archive.org error: '' @ str_exn e)) (\<lambda>_. returnE None))
          t) = Inr (Some r)"
    if "\<forall>x \<in> set ds1. json_contains ''identifier'' x = Inr False"
      "json_contains ''identifier'' d = Inr True" "json_item d ''identifier'' = Inr ident"
    for ds1 d ds2 ident t
  proof -
    obtain r t' where f: "download_pdf_and_cover env
        (''https://archive.org/download/'' @ py_str env ident @ ''/'' @ py_str env ident @ ''.pdf'')
        n t = (Inr r, t')"
      using fetch_returns by blast
    show ?thesis
      unfolding tryE_def archive_loop_skip [OF that(1)]
      using that(2,3) f by (intro exI [of _ r]) (simp add: bindE_def liftE_def returnE_def Let_def)
  qed
  show ?thesis
    unfolding Let_def line_def [symmetric] url_def [symmetric]
  proof (intro conjI allI impI, goal_cases)
    case (1 e) then show ?case using pr by (simp add: defs line_def url_def)
  next
    case (2 res e) then show ?case using pr by (simp add: defs line_def url_def)
  next
    case (3 res j e) then show ?case using pr by (simp add: defs line_def url_def)
  next
    case (4 res j resp e) then show ?case using pr by (simp add: defs line_def url_def)
  next
    case (5 res j resp docs e) then show ?case using pr by (simp add: defs line_def url_def)
  next
    case (6 res j resp docs ds)
    then show ?case using loop [of res j resp docs ds] no_id [of ds] by simp
  next
    case (7 res j resp docs ds1 d ds2 e)
    then show ?case using loop [of res j resp docs "ds1 @ d # ds2"] bad [of ds1 d e ds2] by simp
  next
    case (8 res j resp docs ds1 d ds2 ident)
    then show ?case
      using loop [of res j resp docs "ds1 @ d # ds2"]
        hit [of ds1 d ident "(tr @ [Print line]) @ [HttpGet url]" ds2] by simp
  qed
qed

lemma google_lookup_cases:
  assumes ok: "prints_ok env"
  shows "let line = ''Trying Google PDF search for '' @ quote n @ ''...'';
         t0 = tr @ [Print line];
         t1 = t0 @ [Import ''googlesearch''];
         query = n @ '' filetype:pdf'';
         found = google_search env t1 query 5;
         g = fst (try_google_pdf_search env n tr)
     in import_googlesearch env t0 = Inr () \<longrightarrow>
          (\<exists>r. g = Inr r)
        \<and> (find (\<lambda>url. endswith url ''.pdf'') (fst found) = None \<longrightarrow> g = Inr None)
        \<and> (\<forall>u. find (\<lambda>url. endswith url ''.pdf'') (fst found) = Some u
             \<longrightarrow> (\<exists>r. fst (download_pdf_and_cover env u n (t1 @ [GoogleSearch query])) = Inr r
                     \<and> g = Inr (Some r)))"
proof -
  define line where "line = ''Trying Google PDF search for '' @ quote n @ ''...''"
  note defs = try_google_pdf_search_def Let_def
    bindE_def tryE_def returnE_def liftE_def call_def print_line_def raiseE_def
  have pr: "builtin_print env t l = Inr ()" for t l
    using ok by (simp add: prints_ok_def)
  have total: "\<exists>r. fst (try_google_pdf_search env n tr) = Inr r"
    if "import_googlesearch env (tr @ [Print line]) = Inr ()"
    using google_total [OF ok, of tr n] that unfolding line_def by fastforce
  have none: "fst (try_google_pdf_search env n tr) = Inr None"
    if "import_googlesearch env (tr @ [Print line]) = Inr ()"
      "find (\<lambda>url. endswith url ''.pdf'')
         (fst (google_search env ((tr @ [Print line]) @ [Import ''googlesearch''])
                 (n @ '' filetype:pdf'') 5)) = None"
    using that pr
    by (cases "snd (google_search env ((tr @ [Print line]) @ [Import ''googlesearch''])
                 (n @ '' filetype:pdf'') 5)")
       (simp_all add: defs line_def)
  have hit: "\<exists>r. fst (download_pdf_and_cover env u n
                 (((tr @ [Print line]) @ [Import ''googlesearch''])
                    @ [GoogleSearch (n @ '' filetype:pdf'')])) = Inr r
       \<and> fst (try_google_pdf_search env n tr) = Inr (Some r)"
    if "import_googlesearch env (tr @ [Print line]) = Inr ()"
      "find (\<lambda>url. endswith url ''.pdf'')
         (fst (google_search env ((tr @ [Print line]) @ [Import ''googlesearch''])
                 (n @ '' filetype:pdf'') 5)) = Some u" for u
  proof -
    obtain r t where f: "download_pdf_and_cover env u n
        (((tr @ [Print line]) @ [Import ''googlesearch''])
           @ [GoogleSearch (n @ '' filetype:pdf'')]) = (Inr r, t)"
      using fetch_returns by blast
    show ?thesis
      using that f pr by (intro exI [of _ r]) (simp add: defs line_def)
  qed
  show ?thesis
    unfolding Let_def line_def [symmetric]
    using total none hit by (intro conjI allI impI) blast+
qed

lemma strategy_print_raises:
  "\<forall>e. (builtin_print env tr (''Searching PDFDrive for '' @ quote n @ ''...'') = Inl e
            \<longrightarrow> fst (try_pdfdrive_search env n tr) = Inl e)
        \<and> (builtin_print env tr (''Searching Archive.org for '' @ quote n @ ''...'') = Inl e
            \<longrightarrow> fst (try_archive_search env n tr) = Inl e)
        \<and> (builtin_print env tr (''Trying Google PDF search for '' @ quote n @ ''...'') = Inl e
            \<longrightarrow> fst (try_google_pdf_search env n tr) = Inl e)"
  by (simp add: try_pdfdrive_search_def try_archive_search_def try_google_pdf_search_def
        print_line_raises Let_def)

text \<open>
  C5, as the code has it. As long as every line can be printed, the PDFDrive and the
  Archive.org strategy return, and so does the web search once its module is imported; and
  then a strategy returns \<open>None\<close> for every failure of its lookup:
  \<^item> PDFDrive: the search request fails; the page cannot be parsed; it has no hit; the hit
    has no \<open>href\<close>; the request for the page of the book fails; that page has no preview
    link;
  \<^item> Archive.org: the search request fails; the body is not JSON; it is not an object with
    a \<open>docs\<close> list inside an object \<open>response\<close>; no document has an \<open>identifier\<close>; a
    document met before any that has one cannot be searched or indexed;
  \<^item> web search: no URL that the search yields before it ends or fails ends in \<open>.pdf\<close>.

  When the lookup gives a URL, the strategy returns what \<open>_download_pdf_and_cover\<close>
  returns for it. So whatever a strategy returns that is not \<open>None\<close> is the Result of
  \<open>_download_pdf_and_cover\<close>, with status \<open>success\<close> or \<open>error\<close>; that function turns a
  failed request for the PDF into an error Result. In the chain, a stage that returns
  \<open>None\<close> lets the next stage run; a stage that returns a Result, be it an error Result,
  ends the chain with that Result. A strategy whose first line cannot be printed raises
  what the \<open>print\<close> raised.
\<close>

theorem strategies_swallow_lookup_failures:
  "(prints_ok env \<longrightarrow>
      (\<exists>r. fst (try_pdfdrive_search env n tr) = Inr r)
      \<and> (\<exists>r. fst (try_archive_search env n tr) = Inr r)
    \<and> (let line = ''Searching PDFDrive for '' @ quote n @ ''...'';
         t0 = tr @ [Print line];
         url = ''https://www.pdfdrive.com/search?q='' @ py_replace_space n;
         t1 = t0 @ [HttpGet url];
         p = fst (try_pdfdrive_search env n tr)
     in (\<forall>e. requests_get env t0 url = Inl e \<longrightarrow> p = Inr None)
      \<and> (\<forall>res. requests_get env t0 url = Inr res \<longrightarrow>
           (\<forall>e. soup_find_ai_search env (resp_text res) = Inl e \<longrightarrow> p = Inr None)
         \<and> (soup_find_ai_search env (resp_text res) = Inr None \<longrightarrow> p = Inr None)
         \<and> (\<forall>a. soup_find_ai_search env (resp_text res) = Inr (Some a) \<longrightarrow>
              (map_of a ''href'' = None \<longrightarrow> p = Inr None)
            \<and> (\<forall>h. map_of a ''href'' = Some h \<longrightarrow>
                 (\<forall>e. requests_get env t1 (''https://www.pdfdrive.com'' @ h) = Inl e
                    \<longrightarrow> p = Inr None)
               \<and> (\<forall>page. requests_get env t1 (''https://www.pdfdrive.com'' @ h) = Inr page
                      \<and> \<not> str_truthy (re_search_preview env (resp_text page))
                    \<longrightarrow> p = Inr None)
               \<and> (\<forall>page u. requests_get env t1 (''https://www.pdfdrive.com'' @ h) = Inr page
                      \<and> re_search_preview env (resp_text page) = Some u \<and> u \<noteq> []
                    \<longrightarrow> (\<exists>r. fst (download_pdf_and_cover env u (attrs_get a ''title'' n)
                                   (t1 @ [HttpGet (''https://www.pdfdrive.com'' @ h)])) = Inr r
                            \<and> p = Inr (Some r)))))))
    \<and> (let line = ''Searching Archive.org for '' @ quote n @ ''...'';
         t0 = tr @ [Print line];
         url = ''https://archive.org/advancedsearch.php?q=title%3A('' @ py_replace_space n
                 @ '')&output=json'';
         t1 = t0 @ [HttpGet url];
         a = fst (try_archive_search env n tr)
     in (\<forall>e. requests_get env t0 url = Inl e \<longrightarrow> a = Inr None)
      \<and> (\<forall>res. requests_get env t0 url = Inr res \<longrightarrow>
           (\<forall>e. response_json env res = Inl e \<longrightarrow> a = Inr None)
         \<and> (\<forall>j. response_json env res = Inr j \<longrightarrow>
              (\<forall>e. json_get j ''response'' (JDict []) = Inl e \<longrightarrow> a = Inr None)
            \<and> (\<forall>resp. json_get j ''response'' (JDict []) = Inr resp \<longrightarrow>
                 (\<forall>e. json_get resp ''docs'' (JList []) = Inl e \<longrightarrow> a = Inr None)
               \<and> (\<forall>docs. json_get resp ''docs'' (JList []) = Inr docs \<longrightarrow>
                    (\<forall>e. json_iter docs = Inl e \<longrightarrow> a = Inr None)
                  \<and> (\<forall>ds. json_iter docs = Inr ds
                         \<and> (\<forall>d \<in> set ds. json_contains ''identifier'' d = Inr False)
                       \<longrightarrow> a = Inr None)
                  \<and> (\<forall>ds1 d ds2 e. json_iter docs = Inr (ds1 @ d # ds2)
                         \<and> (\<forall>x \<in> set ds1. json_contains ''identifier'' x = Inr False)
                         \<and> (json_contains ''identifier'' d = Inl e
                            \<or> json_contains ''identifier'' d = Inr True
                              \<and> json_item d ''identifier'' = Inl e)
                       \<longrightarrow> a = Inr None)
                  \<and> (\<forall>ds1 d ds2 ident. json_iter docs = Inr (ds1 @ d # ds2)
                         \<and> (\<forall>x \<in> set ds1. json_contains ''identifier'' x = Inr False)
                         \<and> json_contains ''identifier'' d = Inr True
                         \<and> json_item d ''identifier'' = Inr ident
                       \<longrightarrow> (\<exists>r. fst (download_pdf_and_cover env
                                        (''https://archive.org/download/'' @ py_str env ident
                                           @ ''/'' @ py_str env ident @ ''.pdf'') n t1) = Inr r
                              \<and> a = Inr (Some r))))))))
    \<and> (let line = ''Trying Google PDF search for '' @ quote n @ ''...'';
         t0 = tr @ [Print line];
         t1 = t0 @ [Import ''googlesearch''];
         query = n @ '' filetype:pdf'';
         found = google_search env t1 query 5;
         g = fst (try_google_pdf_search env n tr)
     in import_googlesearch env t0 = Inr () \<longrightarrow>
          (\<exists>r. g = Inr r)
        \<and> (find (\<lambda>url. endswith url ''.pdf'') (fst found) = None \<longrightarrow> g = Inr None)
        \<and> (\<forall>u. find (\<lambda>url. endswith url ''.pdf'') (fst found) = Some u
             \<longrightarrow> (\<exists>r. fst (download_pdf_and_cover env u n (t1 @ [GoogleSearch query])) = Inr r
                     \<and> g = Inr (Some r)))))
   \<and> (\<forall>e. (builtin_print env tr (''Searching PDFDrive for '' @ quote n @ ''...'') = Inl e
            \<longrightarrow> fst (try_pdfdrive_search env n tr) = Inl e)
        \<and> (builtin_print env tr (''Searching Archive.org for '' @ quote n @ ''...'') = Inl e
            \<longrightarrow> fst (try_archive_search env n tr) = Inl e)
        \<and> (builtin_print env tr (''Trying Google PDF search for '' @ quote n @ ''...'') = Inl e
            \<longrightarrow> fst (try_google_pdf_search env n tr) = Inl e))
   \<and> (\<forall>r. fst (try_pdfdrive_search env n tr) = Inr (Some r)
            \<or> fst (try_archive_search env n tr) = Inr (Some r)
            \<or> fst (try_google_pdf_search env n tr) = Inr (Some r)
       \<longrightarrow> (\<exists>url title tr'. fst (download_pdf_and_cover env url title tr') = Inr r)
           \<and> dict_get r ''status'' \<in> {Some (PStr ''success''), Some (PStr ''error'')})
   \<and> (\<forall>url title e. requests_get env tr url = Inl e
       \<longrightarrow> fst (download_pdf_and_cover env url title tr)
             = Inr [(''status'', PStr ''error''), (''message'', PStr (str_exn e))])
   \<and> (let p = try_pdfdrive_search env n tr; a = try_archive_search env n (snd p)
      in \<forall>b. clean_name_of b = n \<longrightarrow>
           (\<forall>r. fst p = Inr (Some r) \<longrightarrow> download_by_book_name env b tr = (Inr r, snd p))
         \<and> (\<forall>r. fst p = Inr None \<and> fst a = Inr (Some r)
                \<longrightarrow> download_by_book_name env b tr = (Inr r, snd a))
         \<and> (fst p = Inr None \<and> fst a = Inr None
                \<longrightarrow> attempts (drop (length tr) (snd (download_by_book_name env b tr)))
                      = [PDFDrive, ArchiveOrg, GooglePDF]))"
proof -
  have lookups: "(\<exists>r. fst (try_pdfdrive_search env n tr) = Inr r)
      \<and> (\<exists>r. fst (try_archive_search env n tr) = Inr r)
    \<and> (let line = ''Searching PDFDrive for '' @ quote n @ ''...'';
         t0 = tr @ [Print line];
         url = ''https://www.pdfdrive.com/search?q='' @ py_replace_space n;
         t1 = t0 @ [HttpGet url];
         p = fst (try_pdfdrive_search env n tr)
     in (\<forall>e. requests_get env t0 url = Inl e \<longrightarrow> p = Inr None)
      \<and> (\<forall>res. requests_get env t0 url = Inr res \<longrightarrow>
           (\<forall>e. soup_find_ai_search env (resp_text res) = Inl e \<longrightarrow> p = Inr None)
         \<and> (soup_find_ai_search env (resp_text res) = Inr None \<longrightarrow> p = Inr None)
         \<and> (\<forall>a. soup_find_ai_search env (resp_text res) = Inr (Some a) \<longrightarrow>
              (map_of a ''href'' = None \<longrightarrow> p = Inr None)
            \<and> (\<forall>h. map_of a ''href'' = Some h \<longrightarrow>
                 (\<forall>e. requests_get env t1 (''https://www.pdfdrive.com'' @ h) = Inl e
                    \<longrightarrow> p = Inr None)
               \<and> (\<forall>page. requests_get env t1 (''https://www.pdfdrive.com'' @ h) = Inr page
                      \<and> \<not> str_truthy (re_search_preview env (resp_text page))
                    \<longrightarrow> p = Inr None)
               \<and> (\<forall>page u. requests_get env t1 (''https://www.pdfdrive.com'' @ h) = Inr page
                      \<and> re_search_preview env (resp_text page) = Some u \<and> u \<noteq> []
                    \<longrightarrow> (\<exists>r. fst (download_pdf_and_cover env u (attrs_get a ''title'' n)
                                   (t1 @ [HttpGet (''https://www.pdfdrive.com'' @ h)])) = Inr r
                            \<and> p = Inr (Some r)))))))
    \<and> (let line = ''Searching Archive.org for '' @ quote n @ ''...'';
         t0 = tr @ [Print line];
         url = ''https://archive.org/advancedsearch.php?q=title%3A('' @ py_replace_space n
                 @ '')&output=json'';
         t1 = t0 @ [HttpGet url];
         a = fst (try_archive_search env n tr)
     in (\<forall>e. requests_get env t0 url = Inl e \<longrightarrow> a = Inr None)
      \<and> (\<forall>res. requests_get env t0 url = Inr res \<longrightarrow>
           (\<forall>e. response_json env res = Inl e \<longrightarrow> a = Inr None)
         \<and> (\<forall>j. response_json env res = Inr j \<longrightarrow>
              (\<forall>e. json_get j ''response'' (JDict []) = Inl e \<longrightarrow> a = Inr None)
            \<and> (\<forall>resp. json_get j ''response'' (JDict []) = Inr resp \<longrightarrow>
                 (\<forall>e. json_get resp ''docs'' (JList []) = Inl e \<longrightarrow> a = Inr None)
               \<and> (\<forall>docs. json_get resp ''docs'' (JList []) = Inr docs \<longrightarrow>
                    (\<forall>e. json_iter docs = Inl e \<longrightarrow> a = Inr None)
                  \<and> (\<forall>ds. json_iter docs = Inr ds
                         \<and> (\<forall>d \<in> set ds. json_contains ''identifier'' d = Inr False)
                       \<longrightarrow> a = Inr None)
                  \<and> (\<forall>ds1 d ds2 e. json_iter docs = Inr (ds1 @ d # ds2)
                         \<and> (\<forall>x \<in> set ds1. json_contains ''identifier'' x = Inr False)
                         \<and> (json_contains ''identifier'' d = Inl e
                            \<or> json_contains ''identifier'' d = Inr True
                              \<and> json_item d ''identifier'' = Inl e)
                       \<longrightarrow> a = Inr None)
                  \<and> (\<forall>ds1 d ds2 ident. json_iter docs = Inr (ds1 @ d # ds2)
                         \<and> (\<forall>x \<in> set ds1. json_contains ''identifier'' x = Inr False)
                         \<and> json_contains ''identifier'' d = Inr True
                         \<and> json_item d ''identifier'' = Inr ident
                       \<longrightarrow> (\<exists>r. fst (download_pdf_and_cover env
                                        (''https://archive.org/download/'' @ py_str env ident
                                           @ ''/'' @ py_str env ident @ ''.pdf'') n t1) = Inr r
                              \<and> a = Inr (Some r))))))))
    \<and> (let line = ''Trying Google PDF search for '' @ quote n @ ''...'';
         t0 = tr @ [Print line];
         t1 = t0 @ [Import ''googlesearch''];
         query = n @ '' filetype:pdf'';
         found = google_search env t1 query 5;
         g = fst (try_google_pdf_search env n tr)
     in import_googlesearch env t0 = Inr () \<longrightarrow>
          (\<exists>r. g = Inr r)
        \<and> (find (\<lambda>url. endswith url ''.pdf'') (fst found) = None \<longrightarrow> g = Inr None)
        \<and> (\<forall>u. find (\<lambda>url. endswith url ''.pdf'') (fst found) = Some u
             \<longrightarrow> (\<exists>r. fst (download_pdf_and_cover env u n (t1 @ [GoogleSearch query])) = Inr r
                     \<and> g = Inr (Some r))))"
    if ok: "prints_ok env"
  proof -
    have p: "\<exists>r. fst (try_pdfdrive_search env n tr) = Inr r"
      using pdfdrive_events [OF ok, of n tr] by fastforce
    have a: "\<exists>r. fst (try_archive_search env n tr) = Inr r"
      using archive_events [OF ok, of n tr] by fastforce
    show ?thesis
      by (intro conjI p a pdfdrive_lookup_cases [OF ok] archive_lookup_cases [OF ok]
            google_lookup_cases [OF ok])
  qed
  have some: "(\<exists>url title tr'. fst (download_pdf_and_cover env url title tr') = Inr r)
           \<and> dict_get r ''status'' \<in> {Some (PStr ''success''), Some (PStr ''error'')}"
    if "fst (try_pdfdrive_search env n tr) = Inr (Some r)
            \<or> fst (try_archive_search env n tr) = Inr (Some r)
            \<or> fst (try_google_pdf_search env n tr) = Inr (Some r)" for r
  proof -
    from that pdfdrive_trace [of env n tr] archive_trace [of env n tr] google_events [of env n tr]
    have "strategy_post env (Some r)" by blast
    then show ?thesis by (rule strategy_post_fetched)
  qed
  have f: "fst (download_pdf_and_cover env url title tr)
             = Inr [(''status'', PStr ''error''), (''message'', PStr (str_exn e))]"
    if "requests_get env tr url = Inl e" for url title e
    using fetch_request_fails [OF that] by (simp add: error_result_def)
  have chain: "(let p = try_pdfdrive_search env n tr; a = try_archive_search env n (snd p)
      in \<forall>b. clean_name_of b = n \<longrightarrow>
           (\<forall>r. fst p = Inr (Some r) \<longrightarrow> download_by_book_name env b tr = (Inr r, snd p))
         \<and> (\<forall>r. fst p = Inr None \<and> fst a = Inr (Some r)
                \<longrightarrow> download_by_book_name env b tr = (Inr r, snd a))
         \<and> (fst p = Inr None \<and> fst a = Inr None
                \<longrightarrow> attempts (drop (length tr) (snd (download_by_book_name env b tr)))
                      = [PDFDrive, ArchiveOrg, GooglePDF]))"
    unfolding Let_def
  proof (intro allI impI)
    fix b
    assume b: "clean_name_of b = n"
    note c = chain_cases [where env = env and book_name = b and tr = tr, unfolded b]
    show "(\<forall>r. fst (try_pdfdrive_search env n tr) = Inr (Some r) \<longrightarrow>
             download_by_book_name env b tr = (Inr r, snd (try_pdfdrive_search env n tr)))
         \<and> (\<forall>r. fst (try_pdfdrive_search env n tr) = Inr None
                \<and> fst (try_archive_search env n (snd (try_pdfdrive_search env n tr)))
                    = Inr (Some r)
              \<longrightarrow> download_by_book_name env b tr
                    = (Inr r, snd (try_archive_search env n
                                     (snd (try_pdfdrive_search env n tr)))))
         \<and> (fst (try_pdfdrive_search env n tr) = Inr None
              \<and> fst (try_archive_search env n (snd (try_pdfdrive_search env n tr))) = Inr None
              \<longrightarrow> attempts (drop (length tr) (snd (download_by_book_name env b tr)))
                    = [PDFDrive, ArchiveOrg, GooglePDF])"
      using c(4) c(5) c(6) c(3) by simp
  qed
  show ?thesis
    using lookups some f
    by (intro conjI impI strategy_print_raises chain) blast+
qed

theorem strategies_swallow_lookup_failures_witness:
  "fst (try_pdfdrive_search env_offline ''Atomic Habits'' []) = Inr None
   \<and> fst (try_archive_search env_offline ''Atomic Habits'' []) = Inr None
   \<and> fst (try_google_pdf_search env_offline ''Atomic Habits'' []) = Inr None
   \<and> fst (try_pdfdrive_search env_unparsable ''Atomic Habits'' []) = Inr None
   \<and> fst (try_archive_search env_unparsable ''Atomic Habits'' []) = Inr None
   \<and> fst (try_pdfdrive_search env_malformed ''Atomic Habits'' []) = Inr None
   \<and> fst (try_archive_search env_malformed ''Atomic Habits'' []) = Inr None
   \<and> fst (try_google_pdf_search env_malformed ''Atomic Habits'' []) = Inr None
   \<and> fst (try_pdfdrive_search env_book_page_down ''Atomic Habits'' []) = Inr None
   \<and> fst (try_archive_search env_book_page_down ''Atomic Habits'' []) = Inr None
   \<and> fst (try_pdfdrive_search env_no_preview ''Atomic Habits'' []) = Inr None
   \<and> fst (try_archive_search env_no_preview ''Atomic Habits'' []) = Inr None
   \<and> fst (try_google_pdf_search env_no_preview ''Atomic Habits'' []) = Inr None
   \<and> fst (try_pdfdrive_search env_pdfdrive ''Atomic Habits'' [])
       = Inr (Some atomic_habits_downloaded)
   \<and> fst (try_archive_search env_archive ''Atomic Habits'' [])
       = Inr (Some atomic_habits_downloaded)
   \<and> fst (try_google_pdf_search env_google ''Atomic Habits'' [])
       = Inr (Some atomic_habits_downloaded)
   \<and> dict_get atomic_habits_downloaded ''status'' = Some (PStr ''success'')
   \<and> fst (download_pdf_and_cover env_offline ''https://example.org/atomic-habits.pdf''
            ''Atomic Habits'' [])
       = Inr [(''status'', PStr ''error''), (''message'', PStr ''Connection timed out'')]
   \<and> fst (download_by_book_name env_fetch_fails ''Atomic Habits'' [])
       = Inr [(''status'', PStr ''error''), (''message'', PStr ''Read timed out'')]
   \<and> fst (try_archive_search env_stdout_closed ''Atomic Habits'' [])
       = Inl (ValueError ''I/O operation on closed file.'')"
proof -
  let ?n = "''Atomic Habits''"
  let ?lp = "''Searching PDFDrive for '' @ quote ?n @ ''...''"
  let ?la = "''Searching Archive.org for '' @ quote ?n @ ''...''"
  let ?lg = "''Trying Google PDF search for '' @ quote ?n @ ''...''"
  let ?up = "''https://www.pdfdrive.com/search?q=Atomic+Habits''"
  let ?ua = "''https://archive.org/advancedsearch.php?q=title%3A(Atomic+Habits)&output=json''"
  let ?ub = "''https://www.pdfdrive.com/atomic-habits-e1.html''"
  let ?q = "''Atomic Habits filetype:pdf''"
  have rs: "py_replace_space ?n = ''Atomic+Habits''"
    by (simp add: py_replace_space_def)
  have ok: "prints_ok env_offline" "prints_ok env_unparsable" "prints_ok env_malformed"
    "prints_ok env_book_page_down" "prints_ok env_no_preview" "prints_ok env_archive"
    "prints_ok env_pdfdrive" "prints_ok env_google"
    by (simp_all add: prints_ok_def env_defs)

  note t1 = strategies_swallow_lookup_failures [of env_offline ?n "[]", unfolded Let_def rs]
  have f1: "requests_get env_offline [Print ?lp] ?up = Inl (ExternalError ''Connection timed out'')"
    "requests_get env_offline [Print ?la] ?ua = Inl (ExternalError ''Connection timed out'')"
    "import_googlesearch env_offline [Print ?lg] = Inr ()"
    "google_search env_offline [Print ?lg, Import ''googlesearch''] ?q 5
       = ([], Some (ExternalError ''Connection timed out''))"
    "requests_get env_offline [] ''https://example.org/atomic-habits.pdf''
       = Inl (ExternalError ''Connection timed out'')"
    by (simp_all add: env_defs)
  from ok(1) f1 t1 have 1: "fst (try_pdfdrive_search env_offline ?n []) = Inr None"
    "fst (try_archive_search env_offline ?n []) = Inr None"
    "fst (try_google_pdf_search env_offline ?n []) = Inr None"
    "fst (download_pdf_and_cover env_offline ''https://example.org/atomic-habits.pdf'' ?n [])
       = Inr [(''status'', PStr ''error''), (''message'', PStr ''Connection timed out'')]"
    by simp_all

  note t2 = strategies_swallow_lookup_failures [of env_unparsable ?n "[]", unfolded Let_def rs]
  have f2: "requests_get env_unparsable [Print ?lp] ?up = Inr empty_response"
    "soup_find_ai_search env_unparsable (resp_text empty_response)
       = Inl (ExternalError ''maximum recursion depth exceeded while calling a Python object'')"
    "requests_get env_unparsable [Print ?la] ?ua = Inr empty_response"
    "response_json env_unparsable empty_response = Inr (JList [])"
    by (simp_all add: env_defs)
  from ok(2) f2 t2 have 2: "fst (try_pdfdrive_search env_unparsable ?n []) = Inr None"
    "fst (try_archive_search env_unparsable ?n []) = Inr None"
    by simp_all

  note t3 = strategies_swallow_lookup_failures [of env_malformed ?n "[]", unfolded Let_def rs]
  have f3: "requests_get env_malformed [Print ?lp] ?up = Inr empty_response"
    "soup_find_ai_search env_malformed (resp_text empty_response)
       = Inr (Some [(''title'', ''Atomic Habits'')])"
    "requests_get env_malformed [Print ?la] ?ua = Inr empty_response"
    "response_json env_malformed empty_response
       = Inl (ExternalError ''Expecting value: line 1 column 1 (char 0)'')"
    "import_googlesearch env_malformed [Print ?lg] = Inr ()"
    "google_search env_malformed [Print ?lg, Import ''googlesearch''] ?q 5
       = ([''https://example.org/atomic-habits.html''],
          Some (ExternalError ''429 Client Error: Too Many Requests''))"
    by (simp_all add: env_defs)
  have e3: "\<not> endswith ''https://example.org/atomic-habits.html'' ''.pdf''"
    by (simp add: endswith_def)
  from ok(3) f3 e3 t3 have 3: "fst (try_pdfdrive_search env_malformed ?n []) = Inr None"
    "fst (try_archive_search env_malformed ?n []) = Inr None"
    "fst (try_google_pdf_search env_malformed ?n []) = Inr None"
    by simp_all

  note t4 = strategies_swallow_lookup_failures [of env_book_page_down ?n "[]", unfolded Let_def rs]
  have f4: "requests_get env_book_page_down [Print ?lp] ?up = Inr empty_response"
    "soup_find_ai_search env_book_page_down (resp_text empty_response)
       = Inr (Some [(''href'', ''/atomic-habits-e1.html''), (''title'', ''Atomic Habits'')])"
    "requests_get env_book_page_down [Print ?lp, HttpGet ?up] ?ub
       = Inl (ExternalError ''Read timed out'')"
    "requests_get env_book_page_down [Print ?la] ?ua = Inr empty_response"
    "response_json env_book_page_down empty_response
       = Inr (JDict [(''response'',
           JDict [(''docs'', JList [JDict [(''title'', JStr ''Atomic Habits'')], JNull])])])"
    by (simp_all add: env_defs endswith_def)
  from ok(4) f4 t4 have 4: "fst (try_pdfdrive_search env_book_page_down ?n []) = Inr None"
    by simp
  from ok(4) f4 t4 have "\<forall>ds1 d ds2 e.
      [JDict [(''title'', JStr ''Atomic Habits'')], JNull] = ds1 @ d # ds2
      \<and> (\<forall>x \<in> set ds1. json_contains ''identifier'' x = Inr False)
      \<and> (json_contains ''identifier'' d = Inl e
          \<or> json_contains ''identifier'' d = Inr True \<and> json_item d ''identifier'' = Inl e)
      \<longrightarrow> fst (try_archive_search env_book_page_down ?n []) = Inr None"
    by simp
  from this [rule_format, of "[JDict [(''title'', JStr ''Atomic Habits'')]]" JNull "[]"
      "TypeError (''argument of type '' @ quote ''NoneType'' @ '' is not iterable'')"]
  have 5: "fst (try_archive_search env_book_page_down ?n []) = Inr None"
    by simp

  note t6 = strategies_swallow_lookup_failures [of env_no_preview ?n "[]", unfolded Let_def rs]
  have f6: "requests_get env_no_preview [Print ?lp] ?up = Inr empty_response"
    "soup_find_ai_search env_no_preview (resp_text empty_response)
       = Inr (Some [(''href'', ''/atomic-habits-e1.html''), (''title'', ''Atomic Habits'')])"
    "requests_get env_no_preview [Print ?lp, HttpGet ?up] ?ub = Inr empty_response"
    "re_search_preview env_no_preview (resp_text empty_response) = None"
    "requests_get env_no_preview [Print ?la] ?ua = Inr empty_response"
    "response_json env_no_preview empty_response
       = Inr (JDict [(''response'',
           JDict [(''docs'', JList [JDict [(''title'', JStr ''Atomic Habits'')]])])])"
    "import_googlesearch env_no_preview [Print ?lg] = Inr ()"
    "google_search env_no_preview [Print ?lg, Import ''googlesearch''] ?q 5 = ([], None)"
    by (simp_all add: env_defs)
  from ok(5) f6 t6 have 6: "fst (try_pdfdrive_search env_no_preview ?n []) = Inr None"
    "fst (try_archive_search env_no_preview ?n []) = Inr None"
    "fst (try_google_pdf_search env_no_preview ?n []) = Inr None"
    by simp_all

  from strategies_swallow_lookup_failures [of env_pdfdrive ?n "[]"] pdfdrive_hit [of "[]"]
  have "dict_get atomic_habits_downloaded ''status''
      \<in> {Some (PStr ''success''), Some (PStr ''error'')}"
    by blast
  then have 7: "dict_get atomic_habits_downloaded ''status'' = Some (PStr ''success'')"
    by (simp add: atomic_habits_downloaded_def dict_get_def)

  from strategies_swallow_lookup_failures [of env_fetch_fails ?n "[]"]
  have "\<forall>r. fst (try_pdfdrive_search env_fetch_fails ?n []) = Inr None
          \<and> fst (try_archive_search env_fetch_fails ?n
                 (snd (try_pdfdrive_search env_fetch_fails ?n []))) = Inr (Some r)
        \<longrightarrow> download_by_book_name env_fetch_fails ?n []
              = (Inr r, snd (try_archive_search env_fetch_fails ?n
                               (snd (try_pdfdrive_search env_fetch_fails ?n []))))"
    unfolding Let_def using clean_plain by blast
  then have 8: "fst (download_by_book_name env_fetch_fails ?n [])
       = Inr [(''status'', PStr ''error''), (''message'', PStr ''Read timed out'')]"
    by (simp add: fetch_fails_pdfdrive_miss fetch_fails_archive)

  have f9: "builtin_print env_stdout_closed [] ?la
      = Inl (ValueError ''I/O operation on closed file.'')"
    by (simp add: env_defs)
  from f9 strategies_swallow_lookup_failures [of env_stdout_closed ?n "[]"]
  have 9: "fst (try_archive_search env_stdout_closed ?n [])
      = Inl (ValueError ''I/O operation on closed file.'')"
    by blast
  show ?thesis
    using 1 2 3 4 5 6 7 8 9 pdfdrive_hit [of "[]"] archive_hit [of "[]"] google_hit [of "[]"]
    by simp
qed

text \<open>
  C5 as stated fails. Archive.org lists a document whose PDF cannot be fetched: the
  strategy returns an error Result, not \<open>None\<close>; the chain returns it and the web search is
  not invoked. Where the \<open>googlesearch\<close> module is missing, the import at the head of the
  web-search strategy raises to its caller. Where standard output is closed, the \<open>print\<close>
  at the head of a strategy raises to its caller.
\<close>

theorem strategies_swallow_lookup_failures_counterexample:
  "fst (try_archive_search env_fetch_fails ''Atomic Habits'' [])
     = Inr (Some [(''status'', PStr ''error''), (''message'', PStr ''Read timed out'')])
   \<and> fst (try_archive_search env_fetch_fails ''Atomic Habits'' []) \<noteq> Inr None
   \<and> fst (download_by_book_name env_fetch_fails ''Atomic Habits'' [])
       = Inr [(''status'', PStr ''error''), (''message'', PStr ''Read timed out'')]
   \<and> attempts (snd (download_by_book_name env_fetch_fails ''Atomic Habits'' []))
       = [PDFDrive, ArchiveOrg]
   \<and> fst (try_google_pdf_search env_no_googlesearch ''Atomic Habits'' [])
       = Inl (ExternalError ''No module named googlesearch'')
   \<and> fst (try_pdfdrive_search env_stdout_closed ''Atomic Habits'' [])
       = Inl (ValueError ''I/O operation on closed file.'')
   \<and> fst (download_by_book_name env_stdout_closed ''Atomic Habits'' [])
       = Inl (ValueError ''I/O operation on closed file.'')
   \<and> attempts (snd (download_by_book_name env_stdout_closed ''Atomic Habits'' []))
       = [PDFDrive]"
  by (simp add: fun_defs comp_defs env_defs str_defs)

subsection \<open>C6: what the entry point returns\<close>

lemma as_completed_length: "length (as_completed finished fs) = length fs"
  by (simp add: as_completed_def)

lemma as_completed_set: "set (as_completed finished fs) \<subseteq> set fs"
  by (auto simp: as_completed_def dest: set_zip_rightD)

lemma batch_length:
  "length (handle_multiple_downloads env finished tr book_list) = length book_list"
  by (simp add: handle_multiple_downloads_def as_completed_length)

lemma batch_member:
  assumes "r \<in> set (handle_multiple_downloads env finished tr book_list)"
  shows "\<exists>book \<in> set book_list. r = collect_result (fst (download_pdf env book tr), book)"
  using assms as_completed_set [of finished "map (\<lambda>book. (fst (download_pdf env book tr), book)) book_list"]
  by (auto simp: handle_multiple_downloads_def)

lemma download_pdf_status:
  "fst (download_pdf env identifier tr) = Inr r \<Longrightarrow>
   status_in {''success'', ''error'', ''info''} r"
  using download_pdf_sat [of env "identifier"] unfolding sat_def by blast

lemma status_in_set:
  "status_in {''success'', ''error'', ''info''} r \<longleftrightarrow>
   dict_get r ''status'' \<in> {Some (PStr ''success''), Some (PStr ''error''), Some (PStr ''info'')}"
  by (auto simp: status_in_def)

text \<open>
  C6, as the code has it. Every Result that \<open>download_pdf\<close> returns has a status among
  \<open>success\<close>, \<open>error\<close> and \<open>info\<close>. It does return one when the download directory can be
  created, the search module can be imported and every line can be printed. An exception
  that escapes it is made an error Result by the batch dispatcher, so a batch gives one
  Result per identifier, each with a status among the three.
\<close>

theorem download_pdf_result_status:
  "(\<forall>r. fst (download_pdf env identifier tr) = Inr r \<longrightarrow>
        dict_get r ''status''
          \<in> {Some (PStr ''success''), Some (PStr ''error''), Some (PStr ''info'')})
   \<and> (os_makedirs env tr DOWNLOAD_DIR = Inr () \<and> (\<forall>tr'. import_googlesearch env tr' = Inr ())
         \<and> prints_ok env
       \<longrightarrow> (\<exists>r. fst (download_pdf env identifier tr) = Inr r))
   \<and> length (handle_multiple_downloads env finished tr book_list) = length book_list
   \<and> (\<forall>r \<in> set (handle_multiple_downloads env finished tr book_list).
        dict_get r ''status''
          \<in> {Some (PStr ''success''), Some (PStr ''error''), Some (PStr ''info'')})"
proof -
  have batch: "dict_get r ''status''
          \<in> {Some (PStr ''success''), Some (PStr ''error''), Some (PStr ''info'')}"
    if "r \<in> set (handle_multiple_downloads env finished tr book_list)" for r
  proof -
    from batch_member [OF that] obtain book where
      r: "r = collect_result (fst (download_pdf env book tr), book)" by blast
    show ?thesis
    proof (cases "fst (download_pdf env book tr)")
      case (Inl e)
      then show ?thesis by (simp add: r collect_result_def dict_get_def)
    next
      case (Inr data)
      then show ?thesis
        using download_pdf_status [OF Inr] by (simp add: r collect_result_def status_in_set)
    qed
  qed
  show ?thesis
    using download_pdf_status [of env "identifier" tr] download_pdf_total [of env tr "identifier"]
      batch batch_length [of env finished tr book_list]
    by (auto simp: status_in_set)
qed

theorem download_pdf_result_status_witness:
  "fst (download_pdf env_offline ''Atomic Habits'' [])
     = Inr (not_found_result ''Atomic Habits'')
   \<and> dict_get (not_found_result ''Atomic Habits'') ''status'' = Some (PStr ''error'')
   \<and> handle_multiple_downloads env_stdout_closed (\<lambda>i. i) [] [''Atomic Habits'', ''Dune'']
       = [[(''status'', PStr ''error''), (''message'', PStr ''I/O operation on closed file.''),
           (''book'', PStr ''Atomic Habits'')],
          [(''status'', PStr ''error''), (''message'', PStr ''I/O operation on closed file.''),
           (''book'', PStr ''Dune'')]]
   \<and> length (handle_multiple_downloads env_stdout_closed (\<lambda>i. i) []
               [''Atomic Habits'', ''Dune'']) = 2
   \<and> dict_get [(''status'', PStr ''error''), (''message'', PStr ''I/O operation on closed file.''),
                (''book'', PStr ''Dune'')] ''status''
       \<in> {Some (PStr ''success''), Some (PStr ''error''), Some (PStr ''info'')}"
proof -
  note t = download_pdf_result_status
    [of env_offline "''Atomic Habits''" "[]" "\<lambda>i. i" "[''Atomic Habits'', ''Dune'']"]
  have mk: "os_makedirs env_offline [] DOWNLOAD_DIR = Inr ()"
    and imp: "\<forall>tr'. import_googlesearch env_offline tr' = Inr ()"
    and ok: "prints_ok env_offline"
    by (simp_all add: env_defs prints_ok_def)
  from t mk imp ok obtain r where r: "fst (download_pdf env_offline ''Atomic Habits'' []) = Inr r"
    by blast
  have run: "fst (download_pdf env_offline ''Atomic Habits'' [])
      = Inr (not_found_result ''Atomic Habits'')"
    by (simp add: fun_defs comp_defs env_defs str_defs)
  from t r run have "dict_get (not_found_result ''Atomic Habits'') ''status''
      \<in> {Some (PStr ''success''), Some (PStr ''error''), Some (PStr ''info'')}"
    by auto
  then have st: "dict_get (not_found_result ''Atomic Habits'') ''status'' = Some (PStr ''error'')"
    by (simp add: not_found_result_def dict_get_def)
  note b = download_pdf_result_status
    [of env_stdout_closed "''Atomic Habits''" "[]" "\<lambda>i. i" "[''Atomic Habits'', ''Dune'']"]
  have batch: "handle_multiple_downloads env_stdout_closed (\<lambda>i. i) [] [''Atomic Habits'', ''Dune'']
       = [[(''status'', PStr ''error''), (''message'', PStr ''I/O operation on closed file.''),
           (''book'', PStr ''Atomic Habits'')],
          [(''status'', PStr ''error''), (''message'', PStr ''I/O operation on closed file.''),
           (''book'', PStr ''Dune'')]]"
    by (simp add: handle_multiple_downloads_def as_completed_def collect_result_def
          fun_defs comp_defs env_defs str_defs upt_rec)
  from b have len: "length (handle_multiple_downloads env_stdout_closed (\<lambda>i. i) []
               [''Atomic Habits'', ''Dune'']) = length [''Atomic Habits'', ''Dune'']"
    by blast
  have "[(''status'', PStr ''error''), (''message'', PStr ''I/O operation on closed file.''),
         (''book'', PStr ''Dune'')]
     \<in> set (handle_multiple_downloads env_stdout_closed (\<lambda>i. i) [] [''Atomic Habits'', ''Dune''])"
    unfolding batch by simp
  with b have mem: "dict_get [(''status'', PStr ''error''),
         (''message'', PStr ''I/O operation on closed file.''), (''book'', PStr ''Dune'')] ''status''
       \<in> {Some (PStr ''success''), Some (PStr ''error''), Some (PStr ''info'')}"
    by blast
  show ?thesis
    using run st batch len mem by simp
qed

text \<open>
  C6 as stated fails: where the download directory cannot be created, where the search
  module is missing, and where standard output is closed, \<open>download_pdf\<close> raises instead
  of returning a Result.
\<close>

theorem download_pdf_result_status_counterexample:
  "fst (download_pdf env_readonly ''Atomic Habits'' [])
     = Inl (ExternalError ''[Errno 13] Permission denied'')
   \<and> fst (download_pdf env_no_googlesearch ''Atomic Habits'' [])
       = Inl (ExternalError ''No module named googlesearch'')
   \<and> os_makedirs env_stdout_closed [] DOWNLOAD_DIR = Inr ()
   \<and> import_googlesearch env_stdout_closed [] = Inr ()
   \<and> fst (download_pdf env_stdout_closed ''Atomic Habits'' [])
       = Inl (ValueError ''I/O operation on closed file.'')
   \<and> fst (download_pdf env_stdout_closed ''past paper BICT2303 2023'' [])
       = Inl (ValueError ''I/O operation on closed file.'')"
  by (simp add: fun_defs comp_defs env_defs str_defs)

subsection \<open>C1: what the batch dispatcher returns\<close>

text \<open>
  C1. A batch gives as many Results as there are identifiers. At two identifiers that are
  not PDF URLs the two Results are equal and neither has a \<open>book\<close> field: nothing tells
  which identifier a Result belongs to, and the list is the same whichever future completes
  first. Only a Result made from an escaped exception carries its identifier.
\<close>

theorem batch_results_not_tagged:
  "length (handle_multiple_downloads env finished tr book_list) = length book_list
   \<and> handle_multiple_downloads env_offline (\<lambda>i. i) []
       [''https://example.com/a.html'', ''https://example.com/b.html'']
     = [not_pdf_result, not_pdf_result]
   \<and> handle_multiple_downloads env_offline (\<lambda>i. 1 - i) []
       [''https://example.com/a.html'', ''https://example.com/b.html'']
     = [not_pdf_result, not_pdf_result]
   \<and> dict_get not_pdf_result ''book'' = None
   \<and> map (\<lambda>r. dict_get r ''book'')
       (handle_multiple_downloads env_readonly (\<lambda>i. 1 - i) []
          [''https://example.com/a.html'', ''https://example.com/b.html''])
     = [Some (PStr ''https://example.com/b.html''), Some (PStr ''https://example.com/a.html'')]"
proof -
  have "handle_multiple_downloads env_offline (\<lambda>i. i) []
       [''https://example.com/a.html'', ''https://example.com/b.html'']
     = [not_pdf_result, not_pdf_result]
   \<and> handle_multiple_downloads env_offline (\<lambda>i. 1 - i) []
       [''https://example.com/a.html'', ''https://example.com/b.html'']
     = [not_pdf_result, not_pdf_result]
   \<and> dict_get not_pdf_result ''book'' = None
   \<and> map (\<lambda>r. dict_get r ''book'')
       (handle_multiple_downloads env_readonly (\<lambda>i. 1 - i) []
          [''https://example.com/a.html'', ''https://example.com/b.html''])
     = [Some (PStr ''https://example.com/b.html''), Some (PStr ''https://example.com/a.html'')]"
    by (simp add: handle_multiple_downloads_def as_completed_def collect_result_def
          fun_defs comp_defs env_defs str_defs upt_rec)
  then show ?thesis
    using batch_length [of env finished tr book_list] by simp
qed

end
